theory Spec2Isabelle
  imports Complex_Main
begin

section \<open>Strings of the program\<close>

text \<open>
  A JavaScript string is modelled as a \<^typ>\<open>string\<close>, one \<^typ>\<open>char\<close> per code unit.
  \<open>join\<close> is \<open>Array.prototype.join\<close> on an array of strings.
\<close>

abbreviation NL :: char where
  "NL \<equiv> CHR 0x0A"

fun join :: "string \<Rightarrow> string list \<Rightarrow> string" where
  "join sep [] = []"
| "join sep [x] = x"
| "join sep (x # y # ys) = x @ sep @ join sep (y # ys)"

text \<open>
  A thrown value (an exception, a rejected promise): an \<open>Error\<close> with its message, or
  anything else.
\<close>

datatype thrown = ErrorObj string | NonError

section \<open>The central error handler (error.middleware.ts)\<close>

text \<open>
  \<open>AppError\<close> is an \<open>Error\<close> with an optional numeric \<open>statusCode\<close> and an optional
  \<open>code\<close>. \<open>zod_issues\<close> is \<open>Some\<close> of the issue messages
  (\<open>err.errors.map((e) => e.message)\<close>) exactly when \<open>err instanceof ZodError\<close>.
\<close>

record app_error =
  zod_issues :: "string list option"
  message :: string
  statusCode :: "int option"
  code :: "string option"

text \<open>What \<open>sendError\<close> puts on the wire: the HTTP status and the \<open>error\<close> object.\<close>

record error_response =
  status :: int
  error_message :: string
  error_code :: "string option"

text \<open>
  \<open>sendError\<close> is \<open>res.status(status).json(response)\<close>. \<open>res.status\<close> throws for a
  status that is not between 100 and 999, and \<open>res.json\<close> throws once the headers of the
  response have been sent (\<open>ERR_HTTP_HEADERS_SENT\<close>); in both cases no response is
  produced. \<open>headersSent\<close> is \<open>res.headersSent\<close>; the messages of the two errors are
  shortened.
\<close>

definition sendError :: "bool \<Rightarrow> string \<Rightarrow> int \<Rightarrow> string option \<Rightarrow> thrown + error_response" where
  "sendError headersSent msg st cd =
     (if st < 100 \<or> 999 < st then Inl (ErrorObj ''Invalid status code'')
      else if headersSent
      then Inl (ErrorObj ''Cannot set headers after they are sent to the client'')
      else Inr \<lparr>status = st, error_message = msg, error_code = cd\<rparr>)"

text \<open>
  \<open>if (err.statusCode)\<close> tests the truthiness of an optional number: it is taken when the
  field is present and not zero.
\<close>

definition truthy_number :: "int option \<Rightarrow> bool" where
  "truthy_number n = (case n of None \<Rightarrow> False | Some k \<Rightarrow> k \<noteq> 0)"

text \<open>
  The first argument is \<open>process.env.NODE_ENV\<close>, the second \<open>res.headersSent\<close>; logging
  has no effect on the response. The result is the response sent, or what the handler
  throws.
\<close>

definition errorHandler :: "string option \<Rightarrow> bool \<Rightarrow> app_error \<Rightarrow> thrown + error_response" where
  "errorHandler node_env headersSent err =
     (case zod_issues err of
        Some msgs \<Rightarrow>
          sendError headersSent (''Validation error: '' @ join '', '' msgs) 400
            (Some ''VALIDATION_ERROR'')
      | None \<Rightarrow>
          if truthy_number (statusCode err)
          then sendError headersSent (message err) (the (statusCode err)) (code err)
          else sendError headersSent
                 (if node_env = Some ''production'' then ''Internal server error''
                  else message err)
                 500 (Some ''INTERNAL_ERROR''))"

section \<open>The client chat store (chat-store)\<close>

record source =
  source_id :: string
  source_content :: string
  source_score :: real
  source_documentId :: string

datatype role = User | Assistant | System

record chat_message =
  msg_id :: string
  msg_role :: role
  msg_content :: string
  msg_sources :: "source list option"
  msg_createdAt :: nat
  msg_isStreaming :: "bool option"

record conversation =
  conv_id :: string
  conv_title :: "string option"
  conv_createdAt :: nat
  conv_updatedAt :: nat
  conv_messages :: "chat_message list"

record chat_state =
  conversations :: "conversation list"
  activeConversationId :: "string option"
  isLoading :: bool
  isStreaming :: bool
  store_error :: "string option"

text \<open>
  \<open>set((state) => ({conversations: ...}))\<close> merges the returned partial object into the
  state, so only \<open>conversations\<close> is replaced.
\<close>

definition appendToMessage :: "string \<Rightarrow> string \<Rightarrow> string \<Rightarrow> chat_state \<Rightarrow> chat_state" where
  "appendToMessage conversationId messageId chunk state =
     state\<lparr>conversations :=
       map (\<lambda>c. if conv_id c = conversationId
                then c\<lparr>conv_messages :=
                       map (\<lambda>m. if msg_id m = messageId
                                then m\<lparr>msg_content := msg_content m @ chunk\<rparr>
                                else m)
                           (conv_messages c)\<rparr>
                else c)
           (conversations state)\<rparr>"

section \<open>Paragraph chunking and the upload endpoint (documents routes)\<close>

text \<open>
  \<open>String.prototype.trim\<close> removes white space and line terminators from both ends.
  Among the code units a \<^typ>\<open>char\<close> can hold these are TAB, LF, VT, FF, CR, SPACE and
  NBSP.
\<close>

definition is_ws :: "char \<Rightarrow> bool" where
  "is_ws c = (c \<in> set [CHR 0x09, CHR 0x0A, CHR 0x0B, CHR 0x0C, CHR 0x0D, CHR 0x20, CHR 0xA0])"

definition trim :: "string \<Rightarrow> string" where
  "trim s = rev (dropWhile is_ws (rev (dropWhile is_ws s)))"

text \<open>
  \<open>text.split(/\n\n+/)\<close>: the text is cut at every maximal run of two or more line feeds;
  a run at either end leaves an empty first or last piece, and the empty text gives one
  empty piece.
\<close>

fun cons_head :: "char \<Rightarrow> string list \<Rightarrow> string list" where
  "cons_head c [] = [[c]]"
| "cons_head c (p # ps) = (c # p) # ps"

function split_paragraphs :: "string \<Rightarrow> string list" where
  "split_paragraphs [] = [[]]"
| "split_paragraphs (c # cs) =
     (if c = NL \<and> cs \<noteq> [] \<and> hd cs = NL
      then [] # split_paragraphs (dropWhile (\<lambda>x. x = NL) cs)
      else cons_head c (split_paragraphs cs))"
  by pat_completeness auto
termination
  by (relation "measure length") (auto simp: le_imp_less_Suc length_dropWhile_le)

text \<open>
  The body of the \<open>for\<close> loop of \<open>chunkText\<close>, on the pair of \<open>chunks\<close> and
  \<open>currentChunk\<close>. An empty string is falsy, so \<open>&& currentChunk\<close> and
  \<open>currentChunk ? ... : ...\<close> test for the non-empty string.
\<close>

definition chunk_step :: "nat \<Rightarrow> string \<Rightarrow> string list \<times> string \<Rightarrow> string list \<times> string" where
  "chunk_step maxChunkSize para st =
     (let (chunks, currentChunk) = st; trimmed = trim para in
      if trimmed = [] then (chunks, currentChunk)
      else
        let (chunks1, current1) =
              (if length currentChunk + length trimmed > maxChunkSize \<and> currentChunk \<noteq> []
               then (chunks @ [trim currentChunk], [])
               else (chunks, currentChunk))
        in (chunks1, current1 @ (if current1 \<noteq> [] then [NL, NL] else []) @ trimmed))"

definition chunk_loop :: "nat \<Rightarrow> string \<Rightarrow> string list" where
  "chunk_loop maxChunkSize text =
     (let (chunks, currentChunk) =
            fold (chunk_step maxChunkSize) (split_paragraphs text) ([], [])
      in if trim currentChunk \<noteq> [] then chunks @ [trim currentChunk] else chunks)"

definition chunkText_sized :: "string \<Rightarrow> nat \<Rightarrow> string list" where
  "chunkText_sized text maxChunkSize =
     (let chunks = chunk_loop maxChunkSize text
      in if length chunks > 0 then chunks else [trim text])"

text \<open>The call \<open>chunkText(content)\<close> of the upload handler, with the default size 1000.\<close>

definition chunkText :: "string \<Rightarrow> string list" where
  "chunkText text = chunkText_sized text 1000"

definition estimateTokens :: "string \<Rightarrow> nat" where
  "estimateTokens text = nat \<lceil>real (length text) / 4\<rceil>"

text \<open>JSON values, for the \<open>metadata\<close> columns and for the event stream.\<close>

datatype json =
    JNull
  | JBool bool
  | JNum real
  | JStr string
  | JArr "json list"
  | JObj "(string \<times> json) list"

record document =
  doc_id :: string
  doc_title :: string
  doc_filename :: string
  doc_mimeType :: string
  doc_size :: nat
  doc_content :: string
  doc_metadata :: "json option"
  doc_createdAt :: nat
  doc_updatedAt :: nat

record document_chunk =
  chunk_id :: string
  chunk_documentId :: string
  chunk_content :: string
  chunk_tokenCount :: "nat option"
  chunk_embedding :: "real list option"
  chunk_metadata :: "json option"

record doc_store =
  documents :: "document list"
  document_chunks :: "document_chunk list"

record upload_input =
  in_title :: string
  in_filename :: string
  in_mimeType :: string
  in_size :: nat
  in_content :: string
  in_metadata :: "json option"

text \<open>
  The ORM assigns the identifier and the timestamps of a created row; they are arguments
  here (\<open>new_id\<close>, \<open>now\<close>).
\<close>

definition createDocument :: "string \<Rightarrow> nat \<Rightarrow> upload_input \<Rightarrow> doc_store \<Rightarrow> document \<times> doc_store" where
  "createDocument new_id now inp db =
     (let d = \<lparr>doc_id = new_id, doc_title = in_title inp, doc_filename = in_filename inp,
               doc_mimeType = in_mimeType inp, doc_size = in_size inp,
               doc_content = in_content inp, doc_metadata = in_metadata inp,
               doc_createdAt = now, doc_updatedAt = now\<rparr>
      in (d, db\<lparr>documents := documents db @ [d]\<rparr>))"

record chunk_input =
  ci_content :: string
  ci_tokenCount :: "nat option"
  ci_metadata :: "json option"

text \<open>\<open>createMany\<close> inserts one row per element of \<open>data\<close>; the i-th row gets \<open>chunk_ids i\<close>.\<close>

definition createChunks :: "(nat \<Rightarrow> string) \<Rightarrow> string \<Rightarrow> chunk_input list \<Rightarrow> doc_store \<Rightarrow> nat \<times> doc_store" where
  "createChunks chunk_ids documentId chunks db =
     (let rows = map (\<lambda>(i, chunk).
                   \<lparr>chunk_id = chunk_ids i, chunk_documentId = documentId,
                    chunk_content = ci_content chunk, chunk_tokenCount = ci_tokenCount chunk,
                    chunk_embedding = None, chunk_metadata = ci_metadata chunk\<rparr>)
                 (List.enumerate 0 chunks)
      in (length rows, db\<lparr>document_chunks := document_chunks db @ rows\<rparr>))"

text \<open>
  \<open>file.originalname.replace(/\.[^/.]+$/, "")\<close>: the match is a dot followed, up to the
  end of the name, by one or more characters that are neither a dot nor a slash; so it
  starts at the last dot of the name.
\<close>

definition strip_extension :: "string \<Rightarrow> string" where
  "strip_extension name =
     (let suffix = rev (takeWhile (\<lambda>c. c \<noteq> CHR ''.'') (rev name)) in
      if length suffix < length name \<and> suffix \<noteq> [] \<and> CHR ''/'' \<notin> set suffix
      then take (length name - length suffix - 1) name
      else name)"

record uploaded_file =
  originalname :: string
  mimetype :: string
  file_size :: nat
  buffer :: string

record upload_response =
  up_status :: int
  up_document :: document
  up_chunkCount :: nat
  up_state :: string

text \<open>
  The handler of \<open>POST /api/documents/upload\<close>. \<open>req.file\<close> is the first argument,
  \<open>req.body.title\<close> the second; \<open>iso_now\<close> is \<open>new Date().toISOString()\<close>. The embedding
  job started at the end runs after the response and is not part of it.
\<close>

definition upload_handler ::
  "uploaded_file option \<Rightarrow> string option \<Rightarrow> string \<Rightarrow> string \<Rightarrow> nat \<Rightarrow> (nat \<Rightarrow> string) \<Rightarrow>
   doc_store \<Rightarrow> (app_error + upload_response) \<times> doc_store" where
  "upload_handler req_file body_title iso_now new_id now chunk_ids db =
     (case req_file of
        None \<Rightarrow>
          (Inl \<lparr>zod_issues = None, message = ''No file provided'', statusCode = Some 400,
                code = None\<rparr>, db)
      | Some file \<Rightarrow>
          let content = buffer file;
              title = (case body_title of
                         Some t \<Rightarrow> if t \<noteq> [] then t else strip_extension (originalname file)
                       | None \<Rightarrow> strip_extension (originalname file));
              (doc, db1) = createDocument new_id now
                 \<lparr>in_title = title, in_filename = originalname file,
                  in_mimeType = mimetype file, in_size = file_size file,
                  in_content = content,
                  in_metadata = Some (JObj [(''uploadedAt'', JStr iso_now)])\<rparr> db;
              chunks = chunkText content;
              (n, db2) = createChunks chunk_ids (doc_id doc)
                 (map (\<lambda>(index, text).
                         \<lparr>ci_content = text, ci_tokenCount = Some (estimateTokens text),
                          ci_metadata = Some (JObj [(''chunkIndex'', JNum (real index))])\<rparr>)
                      (List.enumerate 0 chunks)) db1
          in (Inr \<lparr>up_status = 201, up_document = doc, up_chunkCount = length chunks,
                   up_state = ''processing''\<rparr>, db2))"

section \<open>The retrieval service (retrieval.service.ts)\<close>

record search_result =
  sr_id :: string
  sr_content :: string
  sr_score :: real
  sr_documentId :: string
  sr_metadata :: "json option"

record retrieval_options =
  opt_topK :: "int option"
  opt_threshold :: "real option"
  opt_documentIds :: "string list option"

text \<open>A row of the raw query, with the computed column \<open>similarity\<close>.\<close>

record raw_search_result =
  raw_id :: string
  raw_content :: string
  raw_documentId :: string
  raw_metadata :: "json option"
  raw_similarity :: real

text \<open>
  The two raw queries. \<open>cos_dist\<close> is the cosine-distance operator of the vector column and
  \<open>q\<close> the embedding of the query. Rows without an embedding are left out, with a
  document filter only the rows of the listed documents stay, the rows are ordered by
  ascending distance and the first \<open>topK\<close> are returned, each with
  \<open>similarity = 1 - distance\<close>. The database rejects a negative \<open>LIMIT\<close>.
\<close>

definition select_chunks ::
  "(real list \<Rightarrow> real list \<Rightarrow> real) \<Rightarrow> real list \<Rightarrow> string list option \<Rightarrow> int \<Rightarrow>
   document_chunk list \<Rightarrow> thrown + raw_search_result list" where
  "select_chunks cos_dist q doc_filter topK rows =
     (if topK < 0 then Inl (ErrorObj ''LIMIT must not be negative'')
      else
        let embedded = filter (\<lambda>r. chunk_embedding r \<noteq> None) rows;
            wanted = (case doc_filter of
                        None \<Rightarrow> embedded
                      | Some ids \<Rightarrow> filter (\<lambda>r. chunk_documentId r \<in> set ids) embedded);
            ordered = sort_key (\<lambda>r. cos_dist (the (chunk_embedding r)) q) wanted
        in Inr (map (\<lambda>r. \<lparr>raw_id = chunk_id r, raw_content = chunk_content r,
                           raw_documentId = chunk_documentId r,
                           raw_metadata = chunk_metadata r,
                           raw_similarity = 1 - cos_dist (the (chunk_embedding r)) q\<rparr>)
                    (take (nat topK) ordered)))"

text \<open>
  \<open>retrievalService.search\<close>. \<open>embed_query\<close> is the hosted embedding call, which may fail.
  The document filter is used when \<open>documentIds\<close> is present and not empty.
\<close>

definition search ::
  "(string \<Rightarrow> thrown + real list) \<Rightarrow> (real list \<Rightarrow> real list \<Rightarrow> real) \<Rightarrow> doc_store \<Rightarrow>
   string \<Rightarrow> retrieval_options \<Rightarrow> thrown + search_result list" where
  "search embed_query cos_dist db query options =
     (let topK = (case opt_topK options of None \<Rightarrow> 5 | Some k \<Rightarrow> k);
          threshold = (case opt_threshold options of None \<Rightarrow> 7 / 10 | Some t \<Rightarrow> t);
          documentIds = opt_documentIds options
      in case embed_query query of
           Inl e \<Rightarrow> Inl e
         | Inr embedding \<Rightarrow>
             (case (case documentIds of
                      Some ids \<Rightarrow>
                        if length ids > 0
                        then select_chunks cos_dist embedding (Some ids) topK (document_chunks db)
                        else select_chunks cos_dist embedding None topK (document_chunks db)
                    | None \<Rightarrow> select_chunks cos_dist embedding None topK (document_chunks db)) of
                Inl e \<Rightarrow> Inl e
              | Inr results \<Rightarrow>
                  Inr (map (\<lambda>r. \<lparr>sr_id = raw_id r, sr_content = raw_content r,
                                  sr_score = raw_similarity r,
                                  sr_documentId = raw_documentId r,
                                  sr_metadata = raw_metadata r\<rparr>)
                           (filter (\<lambda>r. raw_similarity r \<ge> threshold) results))))"

section \<open>The chat service (chat.service.ts)\<close>

record conversation_settings =
  set_topK :: int
  set_threshold :: real
  set_documentIds :: "string list option"

record db_conversation =
  dbc_id :: string
  dbc_userId :: string
  dbc_title :: "string option"
  dbc_settings :: "conversation_settings option"
  dbc_createdAt :: nat
  dbc_updatedAt :: nat

record db_message =
  dbm_id :: string
  dbm_conversationId :: string
  dbm_role :: role
  dbm_content :: string
  dbm_sources :: "search_result list option"
  dbm_createdAt :: nat

record chat_store =
  db_conversations :: "db_conversation list"
  db_messages :: "db_message list"

text \<open>
  \<open>createConversation\<close>: the title defaults to "New Chat"; the ORM assigns the id and
  the timestamps.
\<close>

definition createConversation ::
  "string \<Rightarrow> nat \<Rightarrow> string \<Rightarrow> string option \<Rightarrow> conversation_settings option \<Rightarrow> chat_store \<Rightarrow>
   db_conversation \<times> chat_store" where
  "createConversation new_id now userId title settings db =
     (let c = \<lparr>dbc_id = new_id, dbc_userId = userId,
                dbc_title = Some (case title of None \<Rightarrow> ''New Chat'' | Some t \<Rightarrow> t),
                dbc_settings = settings, dbc_createdAt = now, dbc_updatedAt = now\<rparr>
      in (c, db\<lparr>db_conversations := db_conversations db @ [c]\<rparr>))"

text \<open>
  \<open>getConversations\<close>: the conversations of the user, most recently updated first, each
  with its newest message (if it has one).
\<close>

definition getConversations :: "string \<Rightarrow> chat_store \<Rightarrow> (db_conversation \<times> db_message list) list" where
  "getConversations userId db =
     map (\<lambda>c. (c, take 1 (rev (sort_key dbm_createdAt
                                (filter (\<lambda>m. dbm_conversationId m = dbc_id c) (db_messages db))))))
         (rev (sort_key dbc_updatedAt
                (filter (\<lambda>c. dbc_userId c = userId) (db_conversations db))))"

text \<open>
  \<open>findFirst\<close> with \<open>where: {id, userId}\<close> and the messages of the conversation included,
  oldest first.
\<close>

definition getConversation ::
  "string \<Rightarrow> string \<Rightarrow> chat_store \<Rightarrow> (db_conversation \<times> db_message list) option" where
  "getConversation conversationId userId db =
     (case find (\<lambda>c. dbc_id c = conversationId \<and> dbc_userId c = userId) (db_conversations db) of
        None \<Rightarrow> None
      | Some c \<Rightarrow>
          Some (c, sort_key dbm_createdAt
                     (filter (\<lambda>m. dbm_conversationId m = dbc_id c) (db_messages db))))"

text \<open>\<open>updateMany\<close> returns the number of rows matched and rewrites exactly those.\<close>

definition updateConversationSettings ::
  "string \<Rightarrow> string \<Rightarrow> conversation_settings \<Rightarrow> nat \<Rightarrow> chat_store \<Rightarrow> nat \<times> chat_store" where
  "updateConversationSettings conversationId userId settings now db =
     (let hit = (\<lambda>c. dbc_id c = conversationId \<and> dbc_userId c = userId) in
      (length (filter hit (db_conversations db)),
       db\<lparr>db_conversations :=
            map (\<lambda>c. if hit c then c\<lparr>dbc_settings := Some settings, dbc_updatedAt := now\<rparr>
                     else c)
                (db_conversations db)\<rparr>))"

text \<open>
  Modelled from the spec: the database schema, which relates messages to conversations,
  is missing; by the spec "deleting a conversation cascades to its messages", so
  \<open>deleteMany\<close> removes the matched conversations and the messages that belong to them.
\<close>

definition deleteConversation :: "string \<Rightarrow> string \<Rightarrow> chat_store \<Rightarrow> nat \<times> chat_store" where
  "deleteConversation conversationId userId db =
     (let hit = (\<lambda>c. dbc_id c = conversationId \<and> dbc_userId c = userId);
          gone = map dbc_id (filter hit (db_conversations db))
      in (length gone,
          \<lparr>db_conversations = filter (\<lambda>c. \<not> hit c) (db_conversations db),
           db_messages = filter (\<lambda>m. dbm_conversationId m \<notin> set gone) (db_messages db)\<rparr>))"

record create_message_input =
  cm_conversationId :: string
  cm_role :: role
  cm_content :: string
  cm_sources :: "search_result list option"

text \<open>
  \<open>addMessage\<close> creates the message and then touches the conversation; both calls
  are rejected when no conversation has that id.
\<close>

definition addMessage ::
  "string \<Rightarrow> nat \<Rightarrow> create_message_input \<Rightarrow> chat_store \<Rightarrow> thrown + (db_message \<times> chat_store)" where
  "addMessage new_id now inp db =
     (if \<not> (\<exists>c \<in> set (db_conversations db). dbc_id c = cm_conversationId inp)
      then Inl (ErrorObj ''Record to update not found'')
      else
        let m = \<lparr>dbm_id = new_id, dbm_conversationId = cm_conversationId inp,
                 dbm_role = cm_role inp, dbm_content = cm_content inp,
                 dbm_sources = cm_sources inp, dbm_createdAt = now\<rparr>
        in Inr (m, db\<lparr>db_messages := db_messages db @ [m],
                      db_conversations :=
                        map (\<lambda>c. if dbc_id c = cm_conversationId inp
                                 then c\<lparr>dbc_updatedAt := now\<rparr> else c)
                            (db_conversations db)\<rparr>))"

section \<open>The completion service (completion.service.ts)\<close>

definition SYSTEM_PROMPT :: string where
  "SYSTEM_PROMPT = join [NL]
     [''You are a helpful knowledge assistant. Your role is to answer questions based on the documents and content provided to you.'',
      [],
      ''When answering questions:'',
      ''1. Base your answers on the provided context from the documents'',
      ''2. If the context doesn'' @ [CHR 0x27] @ ''t contain relevant information, acknowledge that and offer what you can help with'',
      ''3. Be concise but thorough'',
      ''4. Reference specific sources when helpful'',
      ''5. Feel free to expand on topics using your general knowledge when the documents provide a foundation'',
      [],
      ''Be helpful, accurate, and conversational.'']"

text \<open>The decimal digits of a number, as a template literal prints \<open>${i + 1}\<close>.\<close>

fun string_of_nat :: "nat \<Rightarrow> string" where
  "string_of_nat n =
     (if n < 10 then [char_of (48 + n)]
      else string_of_nat (n div 10) @ [char_of (48 + n mod 10)])"

record llm_message =
  lm_role :: role
  lm_content :: string

record completion_options =
  co_conversationHistory :: "llm_message list option"
  co_useRAG :: "bool option"
  co_topK :: "int option"
  co_threshold :: "real option"
  co_documentIds :: "string list option"

text \<open>
  The context block built from the retrieved sources:
  \<open>sources.map((s, i) => `[${i + 1}] ${s.content}`).join("\n\n")\<close> under its heading, and
  the empty string when nothing was retrieved.
\<close>

definition contextPrompt_of :: "search_result list \<Rightarrow> string" where
  "contextPrompt_of sources =
     (if length sources > 0
      then [NL, NL] @ ''Relevant context from company documents:'' @ [NL] @
           join [NL, NL]
             (map (\<lambda>(i, s). ''['' @ string_of_nat (i + 1) @ ''] '' @ sr_content s)
                  (List.enumerate 0 sources))
      else [])"

text \<open>
  \<open>complete\<close> up to the call of the hosted API: the retrieval (when \<open>useRAG\<close>) and the
  \<open>messages\<close> array. \<open>retrieve\<close> stands for \<open>retrievalService.search\<close>; the result is the
  retrieved sources with the array that is sent, or the error thrown by the retrieval.
\<close>

definition complete_request ::
  "(string \<Rightarrow> retrieval_options \<Rightarrow> thrown + search_result list) \<Rightarrow> string \<Rightarrow>
   completion_options \<Rightarrow> thrown + (search_result list \<times> llm_message list)" where
  "complete_request retrieve userMessage options =
     (let conversationHistory = (case co_conversationHistory options of None \<Rightarrow> [] | Some h \<Rightarrow> h);
          useRAG = (case co_useRAG options of None \<Rightarrow> True | Some b \<Rightarrow> b);
          topK = (case co_topK options of None \<Rightarrow> 5 | Some k \<Rightarrow> k);
          threshold = (case co_threshold options of None \<Rightarrow> 7 / 10 | Some t \<Rightarrow> t);
          documentIds = co_documentIds options
      in case (if useRAG
               then (case retrieve userMessage
                            \<lparr>opt_topK = Some topK, opt_threshold = Some threshold,
                             opt_documentIds = documentIds\<rparr> of
                       Inl e \<Rightarrow> Inl e
                     | Inr sources \<Rightarrow> Inr (sources, contextPrompt_of sources))
               else Inr ([], [])) of
           Inl e \<Rightarrow> Inl e
         | Inr (sources, contextPrompt) \<Rightarrow>
             Inr (sources,
                  [\<lparr>lm_role = System, lm_content = SYSTEM_PROMPT @ contextPrompt\<rparr>] @
                  map (\<lambda>msg. \<lparr>lm_role = lm_role msg, lm_content = lm_content msg\<rparr>)
                      conversationHistory @
                  [\<lparr>lm_role = User, lm_content = userMessage\<rparr>]))"

record completion_result =
  cr_content :: string
  cr_sources :: "search_result list"

text \<open>
  \<open>complete\<close>. \<open>llm\<close> is the hosted chat-completion call
  (\<open>openai.chat.completions.create\<close>); it returns \<open>choices[0].message.content\<close>, which
  may be null. The first component of the result lists the \<open>messages\<close> arrays of the
  requests that were sent to the hosted API, the second is what \<open>complete\<close> returns or
  throws.
\<close>

definition complete ::
  "(string \<Rightarrow> retrieval_options \<Rightarrow> thrown + search_result list) \<Rightarrow>
   (llm_message list \<Rightarrow> thrown + string option) \<Rightarrow> string \<Rightarrow> completion_options \<Rightarrow>
   llm_message list list \<times> (thrown + completion_result)" where
  "complete retrieve llm userMessage options =
     (case complete_request retrieve userMessage options of
        Inl e \<Rightarrow> ([], Inl e)
      | Inr (sources, messages) \<Rightarrow>
          ([messages],
           (case llm messages of
              Inl e \<Rightarrow> Inl e
            | Inr content \<Rightarrow>
                Inr \<lparr>cr_content = (case content of None \<Rightarrow> [] | Some c \<Rightarrow> c),
                     cr_sources = sources\<rparr>)))"

text \<open>What the generator \<open>stream\<close> yields.\<close>

datatype stream_chunk =
    ContentChunk string
  | SourcesChunk "search_result list"
  | DoneChunk "search_result list"

text \<open>
  \<open>stream\<close> up to the call of the hosted API; with \<open>useRAG\<close> the sources are yielded
  before the request is made.
\<close>

definition stream_request ::
  "(string \<Rightarrow> retrieval_options \<Rightarrow> thrown + search_result list) \<Rightarrow> string \<Rightarrow>
   completion_options \<Rightarrow> thrown + (search_result list \<times> stream_chunk list \<times> llm_message list)" where
  "stream_request retrieve userMessage options =
     (let conversationHistory = (case co_conversationHistory options of None \<Rightarrow> [] | Some h \<Rightarrow> h);
          useRAG = (case co_useRAG options of None \<Rightarrow> True | Some b \<Rightarrow> b);
          topK = (case co_topK options of None \<Rightarrow> 5 | Some k \<Rightarrow> k);
          threshold = (case co_threshold options of None \<Rightarrow> 7 / 10 | Some t \<Rightarrow> t);
          documentIds = co_documentIds options
      in case (if useRAG
               then (case retrieve userMessage
                            \<lparr>opt_topK = Some topK, opt_threshold = Some threshold,
                             opt_documentIds = documentIds\<rparr> of
                       Inl e \<Rightarrow> Inl e
                     | Inr sources \<Rightarrow>
                         Inr (sources, contextPrompt_of sources, [SourcesChunk sources]))
               else Inr ([], [], [])) of
           Inl e \<Rightarrow> Inl e
         | Inr (sources, contextPrompt, yielded) \<Rightarrow>
             Inr (sources, yielded,
                  [\<lparr>lm_role = System, lm_content = SYSTEM_PROMPT @ contextPrompt\<rparr>] @
                  map (\<lambda>msg. \<lparr>lm_role = lm_role msg, lm_content = lm_content msg\<rparr>)
                      conversationHistory @
                  [\<lparr>lm_role = User, lm_content = userMessage\<rparr>]))"

text \<open>
  The whole generator: the \<open>messages\<close> arrays of the requests sent to the hosted API,
  the chunks it yields and, when it ends by throwing, the error. \<open>llm_stream\<close> is the
  hosted streaming call: it fails at once, or gives the \<open>delta.content\<close> of each
  received part (possibly absent) and then ends or fails. Only a non-empty content is
  yielded.
\<close>

definition stream ::
  "(string \<Rightarrow> retrieval_options \<Rightarrow> thrown + search_result list) \<Rightarrow>
   (llm_message list \<Rightarrow> thrown + (string option list \<times> thrown option)) \<Rightarrow> string \<Rightarrow>
   completion_options \<Rightarrow> llm_message list list \<times> stream_chunk list \<times> thrown option" where
  "stream retrieve llm_stream userMessage options =
     (case stream_request retrieve userMessage options of
        Inl e \<Rightarrow> ([], [], Some e)
      | Inr (sources, yielded, messages) \<Rightarrow>
          (case llm_stream messages of
             Inl e \<Rightarrow> ([messages], yielded, Some e)
           | Inr (deltas, failure) \<Rightarrow>
               let contents = concat (map (\<lambda>d. case d of
                                                  None \<Rightarrow> []
                                                | Some content \<Rightarrow>
                                                    if content \<noteq> [] then [ContentChunk content]
                                                    else []) deltas)
               in (case failure of
                     Some e \<Rightarrow> ([messages], yielded @ contents, Some e)
                   | None \<Rightarrow> ([messages], yielded @ contents @ [DoneChunk sources], None))))"

section \<open>The streaming endpoint (chat.controller.ts)\<close>

text \<open>
  The JSON value of a search result as \<open>JSON.stringify\<close> sees it: a property whose value
  is \<open>undefined\<close> is left out.
\<close>

definition search_result_json :: "search_result \<Rightarrow> json" where
  "search_result_json r =
     JObj ([(''id'', JStr (sr_id r)), (''content'', JStr (sr_content r)),
            (''score'', JNum (sr_score r)), (''documentId'', JStr (sr_documentId r))] @
           (case sr_metadata r of None \<Rightarrow> [] | Some m \<Rightarrow> [(''metadata'', m)]))"

fun chunk_json :: "stream_chunk \<Rightarrow> json" where
  "chunk_json (ContentChunk content) = JObj [(''type'', JStr ''content''), (''data'', JStr content)]"
| "chunk_json (SourcesChunk sources) =
     JObj [(''type'', JStr ''sources''), (''data'', JArr (map search_result_json sources))]"
| "chunk_json (DoneChunk sources) =
     JObj [(''type'', JStr ''done''),
           (''data'', JObj [(''sources'', JArr (map search_result_json sources))])]"

text \<open>
  One event on the wire: \<open>`data: ${JSON.stringify(x)}\n\n`\<close>. \<open>stringify\<close> is
  \<open>JSON.stringify\<close>.
\<close>

definition sse_frame :: "(json \<Rightarrow> string) \<Rightarrow> json \<Rightarrow> string" where
  "sse_frame stringify x = ''data: '' @ stringify x @ [NL, NL]"

record relay_state =
  fullContent :: string
  relay_sources :: "search_result list"
  relay_db :: chat_store

text \<open>
  The body of the \<open>for await\<close> loop: the object that is serialised and written for the
  chunk, and the updated variables. A \<open>done\<close> chunk first saves the assistant message
  (which may throw) and reports its id.
\<close>

fun relay_chunk ::
  "string \<Rightarrow> nat \<Rightarrow> string \<Rightarrow> stream_chunk \<Rightarrow> relay_state \<Rightarrow> thrown + (json \<times> relay_state)" where
  "relay_chunk new_id now conversationId (ContentChunk content) st =
     Inr (chunk_json (ContentChunk content), st\<lparr>fullContent := fullContent st @ content\<rparr>)"
| "relay_chunk new_id now conversationId (SourcesChunk sources) st =
     Inr (chunk_json (SourcesChunk sources), st\<lparr>relay_sources := sources\<rparr>)"
| "relay_chunk new_id now conversationId (DoneChunk sources) st =
     (case addMessage new_id now
             \<lparr>cm_conversationId = conversationId, cm_role = Assistant,
              cm_content = fullContent st, cm_sources = Some (relay_sources st)\<rparr>
             (relay_db st) of
        Inl e \<Rightarrow> Inl e
      | Inr (assistantMessage, db) \<Rightarrow>
          Inr (JObj [(''type'', JStr ''done''),
                     (''data'', JObj [(''messageId'', JStr (dbm_id assistantMessage))])],
               st\<lparr>relay_db := db\<rparr>))"

text \<open>
  The loop over the chunks of the generator: the objects written so far, the variables,
  and the error that ended the loop, if any.
\<close>

fun relay_loop ::
  "string \<Rightarrow> nat \<Rightarrow> string \<Rightarrow> stream_chunk list \<Rightarrow> relay_state \<Rightarrow>
   json list \<times> relay_state \<times> thrown option" where
  "relay_loop new_id now conversationId [] st = ([], st, None)"
| "relay_loop new_id now conversationId (chunk # chunks) st =
     (case relay_chunk new_id now conversationId chunk st of
        Inl e \<Rightarrow> ([], st, Some e)
      | Inr (x, st1) \<Rightarrow>
          (case relay_loop new_id now conversationId chunks st1 of
             (xs, st2, err) \<Rightarrow> (x # xs, st2, err)))"

record stream_outcome =
  so_written :: "string list"
  so_error :: "app_error option"
  so_db :: chat_store

definition thrown_error :: "thrown \<Rightarrow> app_error" where
  "thrown_error e =
     \<lparr>zod_issues = None, message = (case e of ErrorObj m \<Rightarrow> m | NonError \<Rightarrow> []),
      statusCode = None, code = None\<rparr>"

definition DEFAULT_SETTINGS :: conversation_settings where
  "DEFAULT_SETTINGS = \<lparr>set_topK = 5, set_threshold = 7 / 10, set_documentIds = None\<rparr>"

text \<open>
  \<open>chatController.sendMessageStream\<close>: the strings written to the response with
  \<open>res.write\<close>, in order (the body of the response is their concatenation), the error
  passed to \<open>next\<close> (if any) and the store afterwards. \<open>user_msg_id\<close> and \<open>reply_id\<close> are the ids
  the ORM gives to the two created messages.
\<close>

definition sendMessageStream ::
  "(json \<Rightarrow> string) \<Rightarrow> (string \<Rightarrow> retrieval_options \<Rightarrow> thrown + search_result list) \<Rightarrow>
   (llm_message list \<Rightarrow> thrown + (string option list \<times> thrown option)) \<Rightarrow>
   string \<Rightarrow> string \<Rightarrow> nat \<Rightarrow> string \<Rightarrow> string \<Rightarrow> string \<Rightarrow> chat_store \<Rightarrow> stream_outcome" where
  "sendMessageStream stringify retrieve llm_stream user_msg_id reply_id now
                     userId conversationId content db =
     (case getConversation conversationId userId db of
        None \<Rightarrow>
          \<lparr>so_written = [],
           so_error = Some \<lparr>zod_issues = None, message = ''Conversation not found'',
                            statusCode = Some 404, code = Some ''CONVERSATION_NOT_FOUND''\<rparr>,
           so_db = db\<rparr>
      | Some (conversation, messages) \<Rightarrow>
          (case addMessage user_msg_id now
                  \<lparr>cm_conversationId = conversationId, cm_role = User, cm_content = content,
                   cm_sources = None\<rparr> db of
             Inl e \<Rightarrow> \<lparr>so_written = [], so_error = Some (thrown_error e), so_db = db\<rparr>
           | Inr (userMessage, db1) \<Rightarrow>
               let conversationHistory =
                     map (\<lambda>msg. \<lparr>lm_role = dbm_role msg, lm_content = dbm_content msg\<rparr>) messages;
                   settings = (case dbc_settings conversation of
                                 None \<Rightarrow> DEFAULT_SETTINGS | Some s \<Rightarrow> s);
                   (requests, chunks, failure) =
                     stream retrieve llm_stream content
                       \<lparr>co_conversationHistory = Some conversationHistory,
                        co_useRAG = Some True, co_topK = Some (set_topK settings),
                        co_threshold = Some (set_threshold settings),
                        co_documentIds = set_documentIds settings\<rparr>;
                   (xs, st, err) =
                     relay_loop reply_id now conversationId chunks
                       \<lparr>fullContent = [], relay_sources = [], relay_db = db1\<rparr>
               in \<lparr>so_written = map (sse_frame stringify) xs,
                   so_error = (case err of
                                 Some e \<Rightarrow> Some (thrown_error e)
                               | None \<Rightarrow> map_option thrown_error failure),
                   so_db = relay_db st\<rparr>))"

section \<open>The streaming client (useChatStreaming)\<close>

text \<open>
  \<open>buffer.split("\n\n")\<close>: the pieces between the occurrences of two line feeds, found
  from left to right; there is always at least one piece.
\<close>

fun split_nn :: "string \<Rightarrow> string list" where
  "split_nn [] = [[]]"
| "split_nn [c] = [[c]]"
| "split_nn (a # b # cs) =
     (if a = NL \<and> b = NL then [] # split_nn cs else cons_head a (split_nn (b # cs)))"

text \<open>
  The state of the hook. \<open>streamingSources\<close> receives \<open>data.data\<close> unchecked, so it holds
  any JSON value or \<open>undefined\<close>; the empty array is \<open>Some (JArr [])\<close>. \<open>completions\<close>
  counts the \<open>done\<close> events, each of which invalidates the conversation query and calls
  \<open>onComplete\<close>.
\<close>

record streaming_state =
  s_isStreaming :: bool
  s_streamingContent :: string
  s_streamingSources :: "json option"
  s_pendingUserMessage :: "string option"
  s_error :: "string option"
  s_completions :: nat

text \<open>Reading a property of a parsed value: only an object has the properties of its text.\<close>

definition field :: "string \<Rightarrow> json \<Rightarrow> json option" where
  "field name v = (case v of JObj props \<Rightarrow> map_of props name | _ \<Rightarrow> None)"

text \<open>
  The body of the inner \<open>for\<close> loop. \<open>parse\<close> is \<open>JSON.parse\<close>, \<open>None\<close> when it throws;
  reading a property of \<open>null\<close> throws as well, and the inner \<open>catch\<close> ignores both.
  \<open>prev + data.data\<close> appends a string as it is and any other value as \<open>to_str\<close> prints it.
\<close>

definition handle_line ::
  "(string \<Rightarrow> json option) \<Rightarrow> (json option \<Rightarrow> string) \<Rightarrow> string \<Rightarrow> streaming_state \<Rightarrow>
   streaming_state" where
  "handle_line parse to_str line st =
     (if take 6 line = ''data: ''
      then (case parse (drop 6 line) of
              None \<Rightarrow> st
            | Some JNull \<Rightarrow> st
            | Some data \<Rightarrow>
                if field ''type'' data = Some (JStr ''content'')
                then st\<lparr>s_streamingContent :=
                          s_streamingContent st @
                          (case field ''data'' data of
                             Some (JStr s) \<Rightarrow> s
                           | other \<Rightarrow> to_str other)\<rparr>
                else if field ''type'' data = Some (JStr ''sources'')
                then st\<lparr>s_streamingSources := field ''data'' data\<rparr>
                else if field ''type'' data = Some (JStr ''done'')
                then st\<lparr>s_completions := s_completions st + 1\<rparr>
                else st)
      else st)"

text \<open>
  One turn of the \<open>while\<close> loop for a read that is not \<open>done\<close>: \<open>value\<close> is the decoded
  text of the read. The state is the pair of \<open>buffer\<close> and the hook state.
\<close>

definition process_read ::
  "(string \<Rightarrow> json option) \<Rightarrow> (json option \<Rightarrow> string) \<Rightarrow> string \<Rightarrow>
   string \<times> streaming_state \<Rightarrow> string \<times> streaming_state" where
  "process_read parse to_str value bs =
     (let (buffer, st) = bs;
          buffer1 = buffer @ value;
          lines = split_nn buffer1;
          buffer2 = (if lines = [] then [] else last lines);
          lines1 = butlast lines
      in (buffer2, fold (handle_line parse to_str) lines1 st))"

definition read_loop ::
  "(string \<Rightarrow> json option) \<Rightarrow> (json option \<Rightarrow> string) \<Rightarrow> string list \<Rightarrow> streaming_state \<Rightarrow>
   streaming_state" where
  "read_loop parse to_str reads st = snd (fold (process_read parse to_str) reads ([], st))"

text \<open>
  What \<open>fetch\<close> gives: a rejection, or a response with its \<open>ok\<close> flag and, when it has a
  body, the decoded reads of the body followed by its end or by a read error.
\<close>

datatype fetch_outcome =
    FetchRejected thrown
  | FetchResponse bool "(string list \<times> thrown option) option"

text \<open>The \<open>try\<close> block of \<open>sendMessage\<close>: the state it leaves and what it threw.\<close>

definition try_stream ::
  "(string \<Rightarrow> json option) \<Rightarrow> (json option \<Rightarrow> string) \<Rightarrow> fetch_outcome \<Rightarrow> streaming_state \<Rightarrow>
   streaming_state \<times> thrown option" where
  "try_stream parse to_str outcome st =
     (case outcome of
        FetchRejected e \<Rightarrow> (st, Some e)
      | FetchResponse ok body \<Rightarrow>
          if \<not> ok then (st, Some (ErrorObj ''Failed to send message''))
          else (case body of
                  None \<Rightarrow> (st, Some (ErrorObj ''No response body''))
                | Some (reads, failure) \<Rightarrow> (read_loop parse to_str reads st, failure)))"

definition sendMessage ::
  "(string \<Rightarrow> json option) \<Rightarrow> (json option \<Rightarrow> string) \<Rightarrow> fetch_outcome \<Rightarrow> string \<Rightarrow>
   streaming_state \<Rightarrow> streaming_state" where
  "sendMessage parse to_str outcome content st0 =
     (let st1 = st0\<lparr>s_pendingUserMessage := Some content, s_isStreaming := True,
                    s_streamingContent := [], s_streamingSources := Some (JArr []),
                    s_error := None\<rparr>;
          (st2, err) = try_stream parse to_str outcome st1;
          st3 = (case err of
                   None \<Rightarrow> st2
                 | Some e \<Rightarrow>
                     st2\<lparr>s_error := Some (case e of
                                            ErrorObj m \<Rightarrow> m
                                          | NonError \<Rightarrow> ''Failed to get response'')\<rparr>)
      in st3\<lparr>s_isStreaming := False, s_streamingContent := [],
             s_streamingSources := Some (JArr []), s_pendingUserMessage := None\<rparr>)"

section \<open>Notions used in the statements\<close>

text \<open>A string that is not empty and neither begins nor ends with white space.\<close>

definition outer_trimmed :: "string \<Rightarrow> bool" where
  "outer_trimmed s \<longleftrightarrow> s \<noteq> [] \<and> \<not> is_ws (hd s) \<and> \<not> is_ws (last s)"


fun chunk_text :: "stream_chunk \<Rightarrow> string" where
  "chunk_text (ContentChunk s) = s"
| "chunk_text (SourcesChunk ss) = []"
| "chunk_text (DoneChunk ss) = []"

section \<open>Properties\<close>

subsection \<open>The error handler\<close>

text \<open>
  The handler sends nothing, and throws, once the response has started, and for a
  status (other than the falsy 0) that \<open>res.status\<close> does not accept.
\<close>

lemma errorHandler_throws:
  "(\<exists>e. errorHandler env True err = Inl e) \<and>
   (zod_issues err = None \<and> statusCode err = Some s \<and> s \<noteq> 0 \<and> (s < 100 \<or> 999 < s) \<longrightarrow>
      errorHandler env headersSent err = Inl (ErrorObj ''Invalid status code''))"
  by (auto simp: errorHandler_def sendError_def truthy_number_def split: option.splits)

text \<open>
  The streaming endpoint passes an error to \<open>next\<close> after it has written to the
  response: here the hosted stream breaks after its first part, when the sources and
  one content event are already on the wire.
\<close>

lemma stream_error_after_first_event:
  \<open>so_written (sendMessageStream
       (\<lambda>x. if x = JObj [(''type'', JStr ''sources''), (''data'', JArr [])]
            then ''{"type":"sources","data":[]}''
            else ''{"type":"content","data":"Hel"}'')
       (\<lambda>q opts. Inr [])
       (\<lambda>messages. Inr ([Some ''Hel''], Some (ErrorObj ''stream interrupted'')))
       ''m8'' ''m9'' 5 ''alice'' ''c1'' ''Hi''
       \<lparr>db_conversations =
          [\<lparr>dbc_id = ''c1'', dbc_userId = ''alice'', dbc_title = Some ''New Chat'',
            dbc_settings = None, dbc_createdAt = 1, dbc_updatedAt = 1\<rparr>],
        db_messages = []\<rparr>)
     = [''data: {"type":"sources","data":[]}'' @ [NL, NL],
        ''data: {"type":"content","data":"Hel"}'' @ [NL, NL]] \<and>
   so_error (sendMessageStream
       (\<lambda>x. if x = JObj [(''type'', JStr ''sources''), (''data'', JArr [])]
            then ''{"type":"sources","data":[]}''
            else ''{"type":"content","data":"Hel"}'')
       (\<lambda>q opts. Inr [])
       (\<lambda>messages. Inr ([Some ''Hel''], Some (ErrorObj ''stream interrupted'')))
       ''m8'' ''m9'' 5 ''alice'' ''c1'' ''Hi''
       \<lparr>db_conversations =
          [\<lparr>dbc_id = ''c1'', dbc_userId = ''alice'', dbc_title = Some ''New Chat'',
            dbc_settings = None, dbc_createdAt = 1, dbc_updatedAt = 1\<rparr>],
        db_messages = []\<rparr>)
     = Some \<lparr>zod_issues = None, message = ''stream interrupted'', statusCode = None,
             code = None\<rparr>\<close>
  by (simp add: sendMessageStream_def getConversation_def addMessage_def stream_def
        stream_request_def contextPrompt_of_def DEFAULT_SETTINGS_def sse_frame_def
        thrown_error_def Let_def)

text \<open>
  Claim C6, as amended. While no part of the response has been sent: a schema
  validation error is answered with status 400 and the code VALIDATION_ERROR; any other
  error whose \<open>statusCode\<close> is an HTTP status (100 to 999) is answered with exactly that
  status, its own code and its own message; an error without a \<open>statusCode\<close> (or with
  the falsy \<open>statusCode\<close> 0) is answered with status 500 and the code INTERNAL_ERROR, the
  message being "Internal server error" when \<open>NODE_ENV\<close> is \<open>production\<close> and the
  message of the error otherwise.
\<close>

theorem errorHandler_mapping:
  "(zod_issues err = Some msgs \<longrightarrow>
      errorHandler env False err =
        Inr \<lparr>status = 400, error_message = ''Validation error: '' @ join '', '' msgs,
             error_code = Some ''VALIDATION_ERROR''\<rparr>) \<and>
   (zod_issues err = None \<and> statusCode err = Some s \<and> 100 \<le> s \<and> s \<le> 999 \<longrightarrow>
      errorHandler env False err =
        Inr \<lparr>status = s, error_message = message err, error_code = code err\<rparr>) \<and>
   (zod_issues err = None \<and> (statusCode err = None \<or> statusCode err = Some 0) \<longrightarrow>
      errorHandler env False err =
        Inr \<lparr>status = 500,
             error_message =
               (if env = Some ''production'' then ''Internal server error'' else message err),
             error_code = Some ''INTERNAL_ERROR''\<rparr>)"
  by (auto simp: errorHandler_def sendError_def truthy_number_def)

text \<open>
  The three cases at concrete errors: a validation error with two issues, an
  \<open>ApiError\<close> with status 404, and a plain error in production.
\<close>

theorem errorHandler_mapping_witness:
  "errorHandler None False
      \<lparr>zod_issues = Some [''Required'', ''Too long''], message = ''invalid'',
       statusCode = None, code = None\<rparr> =
     Inr \<lparr>status = 400, error_message = ''Validation error: Required, Too long'',
          error_code = Some ''VALIDATION_ERROR''\<rparr> \<and>
   errorHandler None False
      \<lparr>zod_issues = None, message = ''Conversation not found'',
       statusCode = Some 404, code = Some ''CONVERSATION_NOT_FOUND''\<rparr> =
     Inr \<lparr>status = 404, error_message = ''Conversation not found'',
          error_code = Some ''CONVERSATION_NOT_FOUND''\<rparr> \<and>
   errorHandler (Some ''production'') False
      \<lparr>zod_issues = None, message = ''connection refused'',
       statusCode = None, code = None\<rparr> =
     Inr \<lparr>status = 500, error_message = ''Internal server error'',
          error_code = Some ''INTERNAL_ERROR''\<rparr>"
  using
    errorHandler_mapping [of
      "\<lparr>zod_issues = Some [''Required'', ''Too long''], message = ''invalid'',
        statusCode = None, code = None\<rparr>" "[''Required'', ''Too long'']" None 1]
    errorHandler_mapping [of
      "\<lparr>zod_issues = None, message = ''Conversation not found'',
        statusCode = Some 404, code = Some ''CONVERSATION_NOT_FOUND''\<rparr>" "[]" None 404]
    errorHandler_mapping [of
      "\<lparr>zod_issues = None, message = ''connection refused'',
        statusCode = None, code = None\<rparr>" "[]" "Some ''production''" 1]
  by simp

text \<open>
  The claim as stated fails for an error that reaches the handler after the response
  has started, as the error of the interrupted stream above does: the error carries no
  \<open>statusCode\<close>, yet the handler answers nothing (the status line already sent stays)
  and throws.
\<close>

theorem errorHandler_headers_sent_counterexample:
  "errorHandler (Some ''production'') True
      \<lparr>zod_issues = None, message = ''stream interrupted'', statusCode = None,
       code = None\<rparr> =
     Inl (ErrorObj ''Cannot set headers after they are sent to the client'')"
  by (simp add: errorHandler_def sendError_def truthy_number_def)

subsection \<open>Appending to a message in the client store\<close>

lemma appendToMessage_twice:
  "appendToMessage cid mid c2 (appendToMessage cid mid c1 st) =
   appendToMessage cid mid (c1 @ c2) st"
  by (simp add: appendToMessage_def comp_def if_distrib cong: if_cong)

lemma append_empty_messages:
  "map (\<lambda>m. if msg_id m = mid then m\<lparr>msg_content := msg_content m @ []\<rparr> else m) ms = ms"
  by (induction ms) auto

lemma same_messages_conversations:
  "map (\<lambda>c. if conv_id c = cid then c\<lparr>conv_messages := conv_messages c\<rparr> else c) cs = cs"
  by (induction cs) auto

lemma appendToMessage_empty: "appendToMessage cid mid [] st = st"
  unfolding appendToMessage_def append_empty_messages same_messages_conversations by simp

lemma appendToMessage_fold:
  "fold (appendToMessage cid mid) chunks st = appendToMessage cid mid (concat chunks) st"
proof (induction chunks arbitrary: st)
  case Nil
  show ?case by (simp add: appendToMessage_empty)
next
  case (Cons c cs)
  show ?case by (simp add: Cons.IH appendToMessage_twice)
qed

lemma appendToMessage_pointwise:
  assumes "i < length (conversations st)"
  shows "(conv_id (conversations st ! i) \<noteq> cid \<longrightarrow>
            conversations (appendToMessage cid mid chunk st) ! i = conversations st ! i) \<and>
         (conv_id (conversations st ! i) = cid \<longrightarrow>
            conversations (appendToMessage cid mid chunk st) ! i =
              (conversations st ! i)\<lparr>conv_messages :=
                 conv_messages (conversations (appendToMessage cid mid chunk st) ! i)\<rparr> \<and>
            length (conv_messages (conversations (appendToMessage cid mid chunk st) ! i)) =
              length (conv_messages (conversations st ! i)) \<and>
            (\<forall>j < length (conv_messages (conversations st ! i)).
               (msg_id (conv_messages (conversations st ! i) ! j) \<noteq> mid \<longrightarrow>
                  conv_messages (conversations (appendToMessage cid mid chunk st) ! i) ! j =
                  conv_messages (conversations st ! i) ! j) \<and>
               (msg_id (conv_messages (conversations st ! i) ! j) = mid \<longrightarrow>
                  conv_messages (conversations (appendToMessage cid mid chunk st) ! i) ! j =
                  (conv_messages (conversations st ! i) ! j)
                    \<lparr>msg_content :=
                       msg_content (conv_messages (conversations st ! i) ! j) @ chunk\<rparr>)))"
  using assms by (simp add: appendToMessage_def)

text \<open>
  Claim C9. \<open>appendToMessage\<close> changes nothing of the store but \<open>conversations\<close>, and
  keeps the number of conversations. A conversation with another id is unchanged; in a
  conversation with the given id only \<open>messages\<close> changes, it keeps its length, every
  message with another id is unchanged, and a message with the given id differs from the
  old one only in \<open>content\<close>, which is the old content followed by the chunk.
  Appending two chunks in turn, or a list of chunks one by one, equals appending their
  concatenation.
\<close>

theorem appendToMessage_frame:
  "activeConversationId (appendToMessage cid mid chunk st) = activeConversationId st \<and>
   isLoading (appendToMessage cid mid chunk st) = isLoading st \<and>
   isStreaming (appendToMessage cid mid chunk st) = isStreaming st \<and>
   store_error (appendToMessage cid mid chunk st) = store_error st \<and>
   length (conversations (appendToMessage cid mid chunk st)) = length (conversations st) \<and>
   (\<forall>i < length (conversations st).
      (conv_id (conversations st ! i) \<noteq> cid \<longrightarrow>
         conversations (appendToMessage cid mid chunk st) ! i = conversations st ! i) \<and>
      (conv_id (conversations st ! i) = cid \<longrightarrow>
         conversations (appendToMessage cid mid chunk st) ! i =
           (conversations st ! i)\<lparr>conv_messages :=
              conv_messages (conversations (appendToMessage cid mid chunk st) ! i)\<rparr> \<and>
         length (conv_messages (conversations (appendToMessage cid mid chunk st) ! i)) =
           length (conv_messages (conversations st ! i)) \<and>
         (\<forall>j < length (conv_messages (conversations st ! i)).
            (msg_id (conv_messages (conversations st ! i) ! j) \<noteq> mid \<longrightarrow>
               conv_messages (conversations (appendToMessage cid mid chunk st) ! i) ! j =
               conv_messages (conversations st ! i) ! j) \<and>
            (msg_id (conv_messages (conversations st ! i) ! j) = mid \<longrightarrow>
               conv_messages (conversations (appendToMessage cid mid chunk st) ! i) ! j =
               (conv_messages (conversations st ! i) ! j)
                 \<lparr>msg_content :=
                    msg_content (conv_messages (conversations st ! i) ! j) @ chunk\<rparr>)))) \<and>
   appendToMessage cid mid c2 (appendToMessage cid mid chunk st) =
     appendToMessage cid mid (chunk @ c2) st \<and>
   fold (appendToMessage cid mid) chunks st = appendToMessage cid mid (concat chunks) st"
proof -
  have frame:
    "activeConversationId (appendToMessage cid mid chunk st) = activeConversationId st \<and>
     isLoading (appendToMessage cid mid chunk st) = isLoading st \<and>
     isStreaming (appendToMessage cid mid chunk st) = isStreaming st \<and>
     store_error (appendToMessage cid mid chunk st) = store_error st \<and>
     length (conversations (appendToMessage cid mid chunk st)) = length (conversations st)"
    by (simp add: appendToMessage_def)
  show ?thesis
    using frame appendToMessage_pointwise [of _ st cid mid chunk]
      appendToMessage_twice [of cid mid c2 chunk st] appendToMessage_fold [of cid mid chunks st]
    by blast
qed

text \<open>
  A store with one conversation of two messages, while the second message is being
  streamed: the chunk is appended to that message only.
\<close>

theorem appendToMessage_frame_witness:
  "(0::nat) < length (conversations
      \<lparr>conversations =
         [\<lparr>conv_id = ''c1'', conv_title = None, conv_createdAt = 1, conv_updatedAt = 2,
           conv_messages =
             [\<lparr>msg_id = ''m1'', msg_role = User, msg_content = ''Hi'', msg_sources = None,
               msg_createdAt = 1, msg_isStreaming = None\<rparr>,
              \<lparr>msg_id = ''m2'', msg_role = Assistant, msg_content = ''Hel'',
               msg_sources = None, msg_createdAt = 2, msg_isStreaming = Some True\<rparr>]\<rparr>],
       activeConversationId = Some ''c1'', isLoading = False, isStreaming = True,
       store_error = None\<rparr>) \<and>
   conversations (appendToMessage ''c1'' ''m2'' ''lo''
      \<lparr>conversations =
         [\<lparr>conv_id = ''c1'', conv_title = None, conv_createdAt = 1, conv_updatedAt = 2,
           conv_messages =
             [\<lparr>msg_id = ''m1'', msg_role = User, msg_content = ''Hi'', msg_sources = None,
               msg_createdAt = 1, msg_isStreaming = None\<rparr>,
              \<lparr>msg_id = ''m2'', msg_role = Assistant, msg_content = ''Hel'',
               msg_sources = None, msg_createdAt = 2, msg_isStreaming = Some True\<rparr>]\<rparr>],
       activeConversationId = Some ''c1'', isLoading = False, isStreaming = True,
       store_error = None\<rparr>) =
     [\<lparr>conv_id = ''c1'', conv_title = None, conv_createdAt = 1, conv_updatedAt = 2,
       conv_messages =
         [\<lparr>msg_id = ''m1'', msg_role = User, msg_content = ''Hi'', msg_sources = None,
           msg_createdAt = 1, msg_isStreaming = None\<rparr>,
          \<lparr>msg_id = ''m2'', msg_role = Assistant, msg_content = ''Hello'',
           msg_sources = None, msg_createdAt = 2, msg_isStreaming = Some True\<rparr>]\<rparr>]"
  using appendToMessage_frame [of "''c1''" "''m2''" "''lo''"
      "\<lparr>conversations =
         [\<lparr>conv_id = ''c1'', conv_title = None, conv_createdAt = 1, conv_updatedAt = 2,
           conv_messages =
             [\<lparr>msg_id = ''m1'', msg_role = User, msg_content = ''Hi'', msg_sources = None,
               msg_createdAt = 1, msg_isStreaming = None\<rparr>,
              \<lparr>msg_id = ''m2'', msg_role = Assistant, msg_content = ''Hel'',
               msg_sources = None, msg_createdAt = 2, msg_isStreaming = Some True\<rparr>]\<rparr>],
       activeConversationId = Some ''c1'', isLoading = False, isStreaming = True,
       store_error = None\<rparr>" "[]" "[]"]
  by (simp add: appendToMessage_def)

subsection \<open>The streaming hook: errors and the final state\<close>

lemma handle_line_error: "s_error (handle_line parse to_str line st) = s_error st"
  by (simp add: handle_line_def split: option.splits json.splits)

lemma fold_handle_line_error:
  "s_error (fold (handle_line parse to_str) ls st) = s_error st"
  by (induction ls arbitrary: st) (simp_all add: handle_line_error)

lemma process_read_error:
  "s_error (snd (process_read parse to_str v bs)) = s_error (snd bs)"
  by (cases bs) (simp add: process_read_def Let_def fold_handle_line_error)

lemma fold_process_read_error:
  "s_error (snd (fold (process_read parse to_str) rs bs)) = s_error (snd bs)"
  by (induction rs arbitrary: bs) (simp_all add: process_read_error)

lemma read_loop_error: "s_error (read_loop parse to_str rs st) = s_error st"
  by (simp add: read_loop_def fold_process_read_error)

lemma sendMessage_error:
  "s_error (sendMessage parse to_str outcome content st) =
     (case outcome of
        FetchRejected (ErrorObj m) \<Rightarrow> Some m
      | FetchRejected NonError \<Rightarrow> Some ''Failed to get response''
      | FetchResponse ok body \<Rightarrow>
          if \<not> ok then Some ''Failed to send message''
          else (case body of
                  None \<Rightarrow> Some ''No response body''
                | Some (reads, None) \<Rightarrow> None
                | Some (reads, Some (ErrorObj m)) \<Rightarrow> Some m
                | Some (reads, Some NonError) \<Rightarrow> Some ''Failed to get response''))"
  by (simp add: sendMessage_def try_stream_def Let_def read_loop_error
           split: prod.splits option.splits fetch_outcome.splits thrown.splits)

lemma sendMessage_cleared:
  "s_isStreaming (sendMessage parse to_str outcome content st) = False \<and>
   s_streamingContent (sendMessage parse to_str outcome content st) = [] \<and>
   s_streamingSources (sendMessage parse to_str outcome content st) = Some (JArr []) \<and>
   s_pendingUserMessage (sendMessage parse to_str outcome content st) = None"
  by (simp add: sendMessage_def Let_def split: prod.splits option.splits)

text \<open>
  Claim C7. Whatever \<open>fetch\<close> and the body give, \<open>sendMessage\<close> ends with \<open>isStreaming\<close>
  false, \<open>streamingContent\<close> empty, \<open>streamingSources\<close> the empty array and
  \<open>pendingUserMessage\<close> null. On a failure \<open>error\<close> is one message string: the message
  of the thrown error (or "Failed to get response" for a thrown value that is not an
  \<open>Error\<close>) when \<open>fetch\<close> rejects or a read fails, "Failed to send message" when the
  response is not ok, "No response body" when the response has no body. When the body is
  read to its end, \<open>error\<close> is null.
\<close>

theorem sendMessage_final_state:
  "s_isStreaming (sendMessage parse to_str outcome content st) = False \<and>
   s_streamingContent (sendMessage parse to_str outcome content st) = [] \<and>
   s_streamingSources (sendMessage parse to_str outcome content st) = Some (JArr []) \<and>
   s_pendingUserMessage (sendMessage parse to_str outcome content st) = None \<and>
   (outcome = FetchRejected e \<longrightarrow>
      s_error (sendMessage parse to_str outcome content st) =
        Some (case e of ErrorObj m \<Rightarrow> m | NonError \<Rightarrow> ''Failed to get response'')) \<and>
   (outcome = FetchResponse False body \<longrightarrow>
      s_error (sendMessage parse to_str outcome content st) = Some ''Failed to send message'') \<and>
   (outcome = FetchResponse True None \<longrightarrow>
      s_error (sendMessage parse to_str outcome content st) = Some ''No response body'') \<and>
   (outcome = FetchResponse True (Some (reads, Some e)) \<longrightarrow>
      s_error (sendMessage parse to_str outcome content st) =
        Some (case e of ErrorObj m \<Rightarrow> m | NonError \<Rightarrow> ''Failed to get response'')) \<and>
   (outcome = FetchResponse True (Some (reads, None)) \<longrightarrow>
      s_error (sendMessage parse to_str outcome content st) = None)"
  using sendMessage_cleared [of parse to_str outcome content st]
  by (auto simp: sendMessage_error split: thrown.splits)

text \<open>
  Three failures (a rejected \<open>fetch\<close>, a response that is not ok, a read error after one
  read) and a body read to its end.
\<close>

theorem sendMessage_final_state_witness:
  "s_error (sendMessage (\<lambda>s. None) (\<lambda>v. []) (FetchRejected (ErrorObj ''Failed to fetch'')) ''hi''
      \<lparr>s_isStreaming = False, s_streamingContent = [], s_streamingSources = Some (JArr []),
       s_pendingUserMessage = None, s_error = None, s_completions = 0\<rparr>)
     = Some ''Failed to fetch'' \<and>
   s_error (sendMessage (\<lambda>s. None) (\<lambda>v. []) (FetchResponse False None) ''hi''
      \<lparr>s_isStreaming = False, s_streamingContent = [], s_streamingSources = Some (JArr []),
       s_pendingUserMessage = None, s_error = None, s_completions = 0\<rparr>)
     = Some ''Failed to send message'' \<and>
   s_error (sendMessage (\<lambda>s. None) (\<lambda>v. [])
      (FetchResponse True (Some ([''data: x''], Some (ErrorObj ''network error'')))) ''hi''
      \<lparr>s_isStreaming = False, s_streamingContent = [], s_streamingSources = Some (JArr []),
       s_pendingUserMessage = None, s_error = None, s_completions = 0\<rparr>)
     = Some ''network error'' \<and>
   s_error (sendMessage (\<lambda>s. None) (\<lambda>v. [])
      (FetchResponse True (Some ([''data: x''], None))) ''hi''
      \<lparr>s_isStreaming = False, s_streamingContent = [], s_streamingSources = Some (JArr []),
       s_pendingUserMessage = None, s_error = Some ''old'', s_completions = 0\<rparr>)
     = None \<and>
   s_pendingUserMessage (sendMessage (\<lambda>s. None) (\<lambda>v. [])
      (FetchResponse True (Some ([''data: x''], None))) ''hi''
      \<lparr>s_isStreaming = False, s_streamingContent = [], s_streamingSources = Some (JArr []),
       s_pendingUserMessage = None, s_error = Some ''old'', s_completions = 0\<rparr>)
     = None"
  using
    sendMessage_final_state [of "\<lambda>s. None" "\<lambda>v. []"
      "FetchRejected (ErrorObj ''Failed to fetch'')" "''hi''"
      "\<lparr>s_isStreaming = False, s_streamingContent = [], s_streamingSources = Some (JArr []),
        s_pendingUserMessage = None, s_error = None, s_completions = 0\<rparr>"
      "ErrorObj ''Failed to fetch''" None "[]"]
    sendMessage_final_state [of "\<lambda>s. None" "\<lambda>v. []"
      "FetchResponse False None" "''hi''"
      "\<lparr>s_isStreaming = False, s_streamingContent = [], s_streamingSources = Some (JArr []),
        s_pendingUserMessage = None, s_error = None, s_completions = 0\<rparr>"
      NonError None "[]"]
    sendMessage_final_state [of "\<lambda>s. None" "\<lambda>v. []"
      "FetchResponse True (Some ([''data: x''], Some (ErrorObj ''network error'')))" "''hi''"
      "\<lparr>s_isStreaming = False, s_streamingContent = [], s_streamingSources = Some (JArr []),
        s_pendingUserMessage = None, s_error = None, s_completions = 0\<rparr>"
      "ErrorObj ''network error''" None "[''data: x'']"]
    sendMessage_final_state [of "\<lambda>s. None" "\<lambda>v. []"
      "FetchResponse True (Some ([''data: x''], None))" "''hi''"
      "\<lparr>s_isStreaming = False, s_streamingContent = [], s_streamingSources = Some (JArr []),
        s_pendingUserMessage = None, s_error = Some ''old'', s_completions = 0\<rparr>"
      NonError None "[''data: x'']"]
  by simp

subsection \<open>Conversations are scoped to their owner\<close>

lemma update_keeps_other_users:
  "filter (\<lambda>c. dbc_userId c \<noteq> uid)
     (map (\<lambda>c. if dbc_id c = cid \<and> dbc_userId c = uid
               then c\<lparr>dbc_settings := Some settings, dbc_updatedAt := now\<rparr> else c) cs) =
   filter (\<lambda>c. dbc_userId c \<noteq> uid) cs"
  by (induction cs) auto

lemma scoped_no_match:
  assumes "\<forall>c \<in> set (db_conversations db). dbc_id c = cid \<longrightarrow> dbc_userId c \<noteq> uid"
  shows "getConversation cid uid db = None \<and>
         deleteConversation cid uid db = (0, db) \<and>
         updateConversationSettings cid uid settings now db = (0, db)"
proof -
  let ?hit = "\<lambda>c. dbc_id c = cid \<and> dbc_userId c = uid"
  from assms have nohit: "\<forall>c \<in> set (db_conversations db). \<not> ?hit c" by blast
  then have f: "filter ?hit (db_conversations db) = []"
    by (simp add: filter_empty_conv)
  from nohit have k: "filter (\<lambda>c. \<not> ?hit c) (db_conversations db) = db_conversations db"
    by (simp add: filter_id_conv)
  from nohit have fnd: "find ?hit (db_conversations db) = None"
    by (simp add: find_None_iff)
  from nohit have m:
    "map (\<lambda>c. if ?hit c then c\<lparr>dbc_settings := Some settings, dbc_updatedAt := now\<rparr> else c)
         (db_conversations db) = db_conversations db"
    by (intro map_idI) auto
  have g: "getConversation cid uid db = None"
    by (simp add: getConversation_def fnd)
  have d: "deleteConversation cid uid db = (0, db)"
    unfolding deleteConversation_def Let_def f k by simp
  have u: "updateConversationSettings cid uid settings now db = (0, db)"
    unfolding updateConversationSettings_def Let_def f m by simp
  from g d u show ?thesis by simp
qed

lemma getConversation_owner:
  "getConversation cid uid db = Some (c, ms) \<Longrightarrow>
     dbc_userId c = uid \<and> dbc_id c = cid \<and> c \<in> set (db_conversations db)"
  by (auto simp: getConversation_def find_Some_iff split: option.splits)

lemma delete_keeps_other_users:
  "filter (\<lambda>c. dbc_userId c \<noteq> uid) (db_conversations (snd (deleteConversation cid uid db))) =
   filter (\<lambda>c. dbc_userId c \<noteq> uid) (db_conversations db)"
  by (auto simp: deleteConversation_def Let_def intro: filter_cong)

text \<open>
  Claim C8. When every conversation with the id \<open>cid\<close> belongs to a user other than
  \<open>uid\<close>, \<open>getConversation cid uid\<close> returns null, and \<open>deleteConversation\<close> and
  \<open>updateConversationSettings\<close> match zero rows and leave the store as it was. For any
  id: a conversation that \<open>getConversation\<close> or \<open>getConversations\<close> returns belongs to
  \<open>uid\<close>, and the conversations of all other users are the same before and after a
  delete, an update or the creation of a conversation for \<open>uid\<close>.
\<close>

theorem conversation_scoping:
  "((\<forall>c \<in> set (db_conversations db). dbc_id c = cid \<longrightarrow> dbc_userId c \<noteq> uid) \<longrightarrow>
      getConversation cid uid db = None \<and>
      deleteConversation cid uid db = (0, db) \<and>
      updateConversationSettings cid uid settings now db = (0, db)) \<and>
   (getConversation cid uid db = Some (c, ms) \<longrightarrow> dbc_userId c = uid) \<and>
   filter (\<lambda>c. dbc_userId c \<noteq> uid) (db_conversations (snd (deleteConversation cid uid db))) =
     filter (\<lambda>c. dbc_userId c \<noteq> uid) (db_conversations db) \<and>
   filter (\<lambda>c. dbc_userId c \<noteq> uid)
     (db_conversations (snd (updateConversationSettings cid uid settings now db))) =
     filter (\<lambda>c. dbc_userId c \<noteq> uid) (db_conversations db) \<and>
   (\<forall>p \<in> set (getConversations uid db). dbc_userId (fst p) = uid) \<and>
   filter (\<lambda>c. dbc_userId c \<noteq> uid)
     (db_conversations (snd (createConversation new_id now uid title new_settings db))) =
     filter (\<lambda>c. dbc_userId c \<noteq> uid) (db_conversations db)"
proof -
  have a: "\<forall>p \<in> set (getConversations uid db). dbc_userId (fst p) = uid"
    by (auto simp: getConversations_def)
  have b: "filter (\<lambda>c. dbc_userId c \<noteq> uid)
     (db_conversations (snd (createConversation new_id now uid title new_settings db))) =
     filter (\<lambda>c. dbc_userId c \<noteq> uid) (db_conversations db)"
    by (simp add: createConversation_def Let_def)
  have c: "filter (\<lambda>c. dbc_userId c \<noteq> uid)
     (db_conversations (snd (updateConversationSettings cid uid settings now db))) =
     filter (\<lambda>c. dbc_userId c \<noteq> uid) (db_conversations db)"
    by (simp add: updateConversationSettings_def Let_def update_keeps_other_users)
  from a b c scoped_no_match [of db cid uid settings now]
    getConversation_owner [of cid uid db c ms] delete_keeps_other_users [of uid cid db]
  show ?thesis by blast
qed

text \<open>
  A store with one conversation of \<open>alice\<close> and one message in it; \<open>bob\<close> asks for it,
  tries to delete it and tries to change its settings.
\<close>

theorem conversation_scoping_witness:
  "list_all (\<lambda>c. dbc_id c = ''c1'' \<longrightarrow> dbc_userId c \<noteq> ''bob'')
     (db_conversations
        \<lparr>db_conversations =
           [\<lparr>dbc_id = ''c1'', dbc_userId = ''alice'', dbc_title = Some ''New Chat'',
             dbc_settings = None, dbc_createdAt = 1, dbc_updatedAt = 1\<rparr>],
         db_messages =
           [\<lparr>dbm_id = ''m1'', dbm_conversationId = ''c1'', dbm_role = User,
             dbm_content = ''secret'', dbm_sources = None, dbm_createdAt = 1\<rparr>]\<rparr>) \<and>
   getConversation ''c1'' ''bob''
     \<lparr>db_conversations =
        [\<lparr>dbc_id = ''c1'', dbc_userId = ''alice'', dbc_title = Some ''New Chat'',
          dbc_settings = None, dbc_createdAt = 1, dbc_updatedAt = 1\<rparr>],
      db_messages =
        [\<lparr>dbm_id = ''m1'', dbm_conversationId = ''c1'', dbm_role = User,
          dbm_content = ''secret'', dbm_sources = None, dbm_createdAt = 1\<rparr>]\<rparr> = None \<and>
   fst (deleteConversation ''c1'' ''bob''
     \<lparr>db_conversations =
        [\<lparr>dbc_id = ''c1'', dbc_userId = ''alice'', dbc_title = Some ''New Chat'',
          dbc_settings = None, dbc_createdAt = 1, dbc_updatedAt = 1\<rparr>],
      db_messages =
        [\<lparr>dbm_id = ''m1'', dbm_conversationId = ''c1'', dbm_role = User,
          dbm_content = ''secret'', dbm_sources = None, dbm_createdAt = 1\<rparr>]\<rparr>) = 0 \<and>
   fst (updateConversationSettings ''c1'' ''bob''
     \<lparr>set_topK = 20, set_threshold = 0, set_documentIds = None\<rparr> 2
     \<lparr>db_conversations =
        [\<lparr>dbc_id = ''c1'', dbc_userId = ''alice'', dbc_title = Some ''New Chat'',
          dbc_settings = None, dbc_createdAt = 1, dbc_updatedAt = 1\<rparr>],
      db_messages =
        [\<lparr>dbm_id = ''m1'', dbm_conversationId = ''c1'', dbm_role = User,
          dbm_content = ''secret'', dbm_sources = None, dbm_createdAt = 1\<rparr>]\<rparr>) = 0"
  using conversation_scoping [of
     "\<lparr>db_conversations =
        [\<lparr>dbc_id = ''c1'', dbc_userId = ''alice'', dbc_title = Some ''New Chat'',
          dbc_settings = None, dbc_createdAt = 1, dbc_updatedAt = 1\<rparr>],
      db_messages =
        [\<lparr>dbm_id = ''m1'', dbm_conversationId = ''c1'', dbm_role = User,
          dbm_content = ''secret'', dbm_sources = None, dbm_createdAt = 1\<rparr>]\<rparr>"
     "''c1''" "''bob''" "\<lparr>set_topK = 20, set_threshold = 0, set_documentIds = None\<rparr>" 2
     "\<lparr>dbc_id = ''c1'', dbc_userId = ''alice'', dbc_title = Some ''New Chat'',
       dbc_settings = None, dbc_createdAt = 1, dbc_updatedAt = 1\<rparr>" "[]"
     "''c2''" None None]
  by simp

subsection \<open>Retrieval: threshold, limit, order and document filter\<close>

lemma select_chunks_Inr:
  assumes "select_chunks cos_dist q flt topK rows = Inr raws"
  shows "0 \<le> topK \<and>
         (\<exists>cs. raws = map (\<lambda>r. \<lparr>raw_id = chunk_id r, raw_content = chunk_content r,
                                 raw_documentId = chunk_documentId r,
                                 raw_metadata = chunk_metadata r,
                                 raw_similarity = 1 - cos_dist (the (chunk_embedding r)) q\<rparr>) cs \<and>
               length cs \<le> nat topK \<and>
               set cs \<subseteq> set rows \<and>
               (\<forall>c \<in> set cs. chunk_embedding c \<noteq> None) \<and>
               (\<forall>ids. flt = Some ids \<longrightarrow> (\<forall>c \<in> set cs. chunk_documentId c \<in> set ids)) \<and>
               sorted (map (\<lambda>c. cos_dist (the (chunk_embedding c)) q) cs))"
proof -
  from assms have nonneg: "0 \<le> topK"
    by (auto simp: select_chunks_def split: if_splits)
  let ?wanted =
    "(case flt of
        None \<Rightarrow> filter (\<lambda>r. chunk_embedding r \<noteq> None) rows
      | Some ids \<Rightarrow> filter (\<lambda>r. chunk_documentId r \<in> set ids)
                      (filter (\<lambda>r. chunk_embedding r \<noteq> None) rows))"
  let ?d = "\<lambda>c. cos_dist (the (chunk_embedding c)) q"
  let ?cs = "take (nat topK) (sort_key ?d ?wanted)"
  have sub: "set ?cs \<subseteq> set ?wanted"
    using set_take_subset [of "nat topK" "sort_key ?d ?wanted"] by simp
  have w1: "set ?wanted \<subseteq> set rows" by (auto split: option.splits)
  have w2: "\<forall>c \<in> set ?wanted. chunk_embedding c \<noteq> None" by (auto split: option.splits)
  have w3: "\<forall>ids. flt = Some ids \<longrightarrow> (\<forall>c \<in> set ?wanted. chunk_documentId c \<in> set ids)"
    by (auto split: option.splits)
  have srt: "sorted (map ?d ?cs)"
    by (simp add: take_map [symmetric] sorted_wrt_take)
  from nonneg have "select_chunks cos_dist q flt topK rows =
      Inr (map (\<lambda>r. \<lparr>raw_id = chunk_id r, raw_content = chunk_content r,
                      raw_documentId = chunk_documentId r,
                      raw_metadata = chunk_metadata r,
                      raw_similarity = 1 - cos_dist (the (chunk_embedding r)) q\<rparr>) ?cs)"
    by (cases flt) (simp_all add: select_chunks_def Let_def)
  with assms have eq:
    "raws = map (\<lambda>r. \<lparr>raw_id = chunk_id r, raw_content = chunk_content r,
                      raw_documentId = chunk_documentId r,
                      raw_metadata = chunk_metadata r,
                      raw_similarity = 1 - cos_dist (the (chunk_embedding r)) q\<rparr>) ?cs"
    by simp
  have len: "length ?cs \<le> nat topK" by simp
  from nonneg eq len sub w1 w2 w3 srt show ?thesis
    by (intro conjI exI [of _ ?cs]) blast+
qed

text \<open>
  What a successful search returns: the results are built, in order, from stored chunks
  that have an embedding, lie within the limit, reach the threshold, pass the document
  filter and are ordered by ascending distance to the embedding of the query.
\<close>

lemma search_Inr:
  assumes "search embed_query cos_dist db query options = Inr rs"
  shows "\<exists>q cs. embed_query query = Inr q \<and>
           rs = map (\<lambda>c. \<lparr>sr_id = chunk_id c, sr_content = chunk_content c,
                           sr_score = 1 - cos_dist (the (chunk_embedding c)) q,
                           sr_documentId = chunk_documentId c,
                           sr_metadata = chunk_metadata c\<rparr>) cs \<and>
           int (length cs) \<le> (case opt_topK options of None \<Rightarrow> 5 | Some k \<Rightarrow> k) \<and>
           set cs \<subseteq> set (document_chunks db) \<and>
           (\<forall>c \<in> set cs. chunk_embedding c \<noteq> None) \<and>
           (\<forall>c \<in> set cs. 1 - cos_dist (the (chunk_embedding c)) q
                           \<ge> (case opt_threshold options of None \<Rightarrow> 7 / 10 | Some t \<Rightarrow> t)) \<and>
           (\<forall>ids. opt_documentIds options = Some ids \<and> ids \<noteq> [] \<longrightarrow>
                  (\<forall>c \<in> set cs. chunk_documentId c \<in> set ids)) \<and>
           sorted (map (\<lambda>c. cos_dist (the (chunk_embedding c)) q) cs)"
proof -
  let ?topK = "case opt_topK options of None \<Rightarrow> 5 | Some k \<Rightarrow> k"
  let ?th = "case opt_threshold options of None \<Rightarrow> 7 / 10 | Some t \<Rightarrow> t"
  let ?flt = "case opt_documentIds options of
                None \<Rightarrow> None | Some ids \<Rightarrow> if length ids > 0 then Some ids else None"
  from assms obtain q where q: "embed_query query = Inr q"
    by (cases "embed_query query") (auto simp: search_def Let_def)
  from assms q have main:
    "(case select_chunks cos_dist q ?flt ?topK (document_chunks db) of
        Inl e \<Rightarrow> Inl e
      | Inr results \<Rightarrow>
          Inr (map (\<lambda>r. \<lparr>sr_id = raw_id r, sr_content = raw_content r,
                          sr_score = raw_similarity r,
                          sr_documentId = raw_documentId r,
                          sr_metadata = raw_metadata r\<rparr>)
                   (filter (\<lambda>r. raw_similarity r \<ge> ?th) results))) = Inr rs"
    by (cases "opt_documentIds options") (auto simp: search_def Let_def split: if_splits)
  then obtain raws where
    raws: "select_chunks cos_dist q ?flt ?topK (document_chunks db) = Inr raws" and
    rs: "rs = map (\<lambda>r. \<lparr>sr_id = raw_id r, sr_content = raw_content r,
                        sr_score = raw_similarity r,
                        sr_documentId = raw_documentId r,
                        sr_metadata = raw_metadata r\<rparr>)
                 (filter (\<lambda>r. raw_similarity r \<ge> ?th) raws)"
    by (cases "select_chunks cos_dist q ?flt ?topK (document_chunks db)") auto
  from select_chunks_Inr [OF raws] obtain cs0 where
    nonneg: "0 \<le> ?topK" and
    r0: "raws = map (\<lambda>r. \<lparr>raw_id = chunk_id r, raw_content = chunk_content r,
                          raw_documentId = chunk_documentId r,
                          raw_metadata = chunk_metadata r,
                          raw_similarity = 1 - cos_dist (the (chunk_embedding r)) q\<rparr>) cs0" and
    l0: "length cs0 \<le> nat ?topK" and
    s0: "set cs0 \<subseteq> set (document_chunks db)" and
    e0: "\<forall>c \<in> set cs0. chunk_embedding c \<noteq> None" and
    f0: "\<forall>ids. ?flt = Some ids \<longrightarrow> (\<forall>c \<in> set cs0. chunk_documentId c \<in> set ids)" and
    o0: "sorted (map (\<lambda>c. cos_dist (the (chunk_embedding c)) q) cs0)"
    by blast
  let ?cs = "filter (\<lambda>c. 1 - cos_dist (the (chunk_embedding c)) q \<ge> ?th) cs0"
  have a: "rs = map (\<lambda>c. \<lparr>sr_id = chunk_id c, sr_content = chunk_content c,
                           sr_score = 1 - cos_dist (the (chunk_embedding c)) q,
                           sr_documentId = chunk_documentId c,
                           sr_metadata = chunk_metadata c\<rparr>) ?cs"
    unfolding rs r0 by (simp add: filter_map comp_def)
  have "length ?cs \<le> length cs0" by simp
  with l0 nonneg have b: "int (length ?cs) \<le> ?topK" by linarith
  have c: "set ?cs \<subseteq> set (document_chunks db)" using s0 by auto
  have d: "\<forall>c \<in> set ?cs. chunk_embedding c \<noteq> None" using e0 by auto
  have e: "\<forall>c \<in> set ?cs. 1 - cos_dist (the (chunk_embedding c)) q \<ge> ?th" by simp
  have f: "\<forall>ids. opt_documentIds options = Some ids \<and> ids \<noteq> [] \<longrightarrow>
                  (\<forall>c \<in> set ?cs. chunk_documentId c \<in> set ids)"
    using f0 by auto
  have g: "sorted (map (\<lambda>c. cos_dist (the (chunk_embedding c)) q) ?cs)"
    using o0 by (rule sorted_filter)
  from q a b c d e f g show ?thesis by blast
qed

lemma scores_descending:
  "sorted (map d cs) \<Longrightarrow>
   sorted_wrt (\<lambda>a b. sr_score a \<ge> sr_score b)
     (map (\<lambda>c. \<lparr>sr_id = i c, sr_content = k c, sr_score = 1 - d c, sr_documentId = di c,
                 sr_metadata = m c\<rparr>) (cs :: document_chunk list))"
  by (simp add: sorted_wrt_map sorted_map)

text \<open>
  Claim C1. Every result that \<open>retrievalService.search\<close> returns has a score of at least
  the threshold, which is 0.7 when the options give none.
\<close>

theorem search_threshold:
  assumes "search embed_query cos_dist db query options = Inr rs"
  shows "\<forall>r \<in> set rs.
           sr_score r \<ge> (case opt_threshold options of None \<Rightarrow> 7 / 10 | Some t \<Rightarrow> t)"
  using search_Inr [OF assms] by auto

text \<open>
  Four stored chunks, one of them without an embedding; the distances to the query are
  0.3, 0.1 and 0.2. With the threshold 0.75 the chunk at distance 0.3 is left out.
\<close>

theorem search_threshold_witness:
  "search (\<lambda>q. Inr [0]) (\<lambda>a b. \<bar>hd a - hd b\<bar>)
     \<lparr>documents = [], document_chunks =
        [\<lparr>chunk_id = ''k1'', chunk_documentId = ''d1'', chunk_content = ''alpha'',
          chunk_tokenCount = Some 2, chunk_embedding = Some [3 / 10], chunk_metadata = None\<rparr>,
         \<lparr>chunk_id = ''k2'', chunk_documentId = ''d2'', chunk_content = ''beta'',
          chunk_tokenCount = Some 1, chunk_embedding = Some [1 / 10], chunk_metadata = None\<rparr>,
         \<lparr>chunk_id = ''k3'', chunk_documentId = ''d1'', chunk_content = ''gamma'',
          chunk_tokenCount = Some 2, chunk_embedding = None, chunk_metadata = None\<rparr>,
         \<lparr>chunk_id = ''k4'', chunk_documentId = ''d1'', chunk_content = ''delta'',
          chunk_tokenCount = Some 2, chunk_embedding = Some [2 / 10], chunk_metadata = None\<rparr>]\<rparr>
     ''what''
     \<lparr>opt_topK = None, opt_threshold = Some (75 / 100), opt_documentIds = None\<rparr>
   = Inr [\<lparr>sr_id = ''k2'', sr_content = ''beta'', sr_score = 9 / 10, sr_documentId = ''d2'',
           sr_metadata = None\<rparr>,
          \<lparr>sr_id = ''k4'', sr_content = ''delta'', sr_score = 8 / 10, sr_documentId = ''d1'',
           sr_metadata = None\<rparr>] \<and>
   list_all (\<lambda>r. sr_score r \<ge> 75 / 100)
     [\<lparr>sr_id = ''k2'', sr_content = ''beta'', sr_score = 9 / 10,
       sr_documentId = ''d2'', sr_metadata = None\<rparr>,
      \<lparr>sr_id = ''k4'', sr_content = ''delta'', sr_score = 8 / 10,
       sr_documentId = ''d1'', sr_metadata = None\<rparr>]"
proof -
  have h: "search (\<lambda>q. Inr [0]) (\<lambda>a b. \<bar>hd a - hd b\<bar>)
     \<lparr>documents = [], document_chunks =
        [\<lparr>chunk_id = ''k1'', chunk_documentId = ''d1'', chunk_content = ''alpha'',
          chunk_tokenCount = Some 2, chunk_embedding = Some [3 / 10], chunk_metadata = None\<rparr>,
         \<lparr>chunk_id = ''k2'', chunk_documentId = ''d2'', chunk_content = ''beta'',
          chunk_tokenCount = Some 1, chunk_embedding = Some [1 / 10], chunk_metadata = None\<rparr>,
         \<lparr>chunk_id = ''k3'', chunk_documentId = ''d1'', chunk_content = ''gamma'',
          chunk_tokenCount = Some 2, chunk_embedding = None, chunk_metadata = None\<rparr>,
         \<lparr>chunk_id = ''k4'', chunk_documentId = ''d1'', chunk_content = ''delta'',
          chunk_tokenCount = Some 2, chunk_embedding = Some [2 / 10], chunk_metadata = None\<rparr>]\<rparr>
     ''what''
     \<lparr>opt_topK = None, opt_threshold = Some (75 / 100), opt_documentIds = None\<rparr>
   = Inr [\<lparr>sr_id = ''k2'', sr_content = ''beta'', sr_score = 9 / 10, sr_documentId = ''d2'',
           sr_metadata = None\<rparr>,
          \<lparr>sr_id = ''k4'', sr_content = ''delta'', sr_score = 8 / 10, sr_documentId = ''d1'',
           sr_metadata = None\<rparr>]"
    by (simp add: search_def select_chunks_def)
  show ?thesis using h search_threshold [OF h] by simp
qed

text \<open>
  Claim C2. A successful search returns at most \<open>topK\<close> results (5 when the options give
  none). The results are built, in order, from stored chunks listed by ascending cosine
  distance to the embedding of the query, the score of each being one minus that
  distance; so the scores descend. When \<open>documentIds\<close> is a non-empty list, the
  \<open>documentId\<close> of every result is in it.
\<close>

theorem search_limit_order_filter:
  assumes "search embed_query cos_dist db query options = Inr rs"
  shows "int (length rs) \<le> (case opt_topK options of None \<Rightarrow> 5 | Some k \<Rightarrow> k) \<and>
         (\<exists>q cs. embed_query query = Inr q \<and> set cs \<subseteq> set (document_chunks db) \<and>
            rs = map (\<lambda>c. \<lparr>sr_id = chunk_id c, sr_content = chunk_content c,
                            sr_score = 1 - cos_dist (the (chunk_embedding c)) q,
                            sr_documentId = chunk_documentId c,
                            sr_metadata = chunk_metadata c\<rparr>) cs \<and>
            sorted (map (\<lambda>c. cos_dist (the (chunk_embedding c)) q) cs)) \<and>
         sorted_wrt (\<lambda>a b. sr_score a \<ge> sr_score b) rs \<and>
         (\<forall>ids. opt_documentIds options = Some ids \<and> ids \<noteq> [] \<longrightarrow>
                (\<forall>r \<in> set rs. sr_documentId r \<in> set ids))"
proof -
  from search_Inr [OF assms] obtain q cs where
    q: "embed_query query = Inr q" and
    rs: "rs = map (\<lambda>c. \<lparr>sr_id = chunk_id c, sr_content = chunk_content c,
                        sr_score = 1 - cos_dist (the (chunk_embedding c)) q,
                        sr_documentId = chunk_documentId c,
                        sr_metadata = chunk_metadata c\<rparr>) cs" and
    len: "int (length cs) \<le> (case opt_topK options of None \<Rightarrow> 5 | Some k \<Rightarrow> k)" and
    sub: "set cs \<subseteq> set (document_chunks db)" and
    flt: "\<forall>ids. opt_documentIds options = Some ids \<and> ids \<noteq> [] \<longrightarrow>
                (\<forall>c \<in> set cs. chunk_documentId c \<in> set ids)" and
    srt: "sorted (map (\<lambda>c. cos_dist (the (chunk_embedding c)) q) cs)"
    by blast
  have a: "int (length rs) \<le> (case opt_topK options of None \<Rightarrow> 5 | Some k \<Rightarrow> k)"
    using len by (simp add: rs)
  have b: "sorted_wrt (\<lambda>a b. sr_score a \<ge> sr_score b) rs"
    unfolding rs using srt by (rule scores_descending)
  have c: "\<forall>ids. opt_documentIds options = Some ids \<and> ids \<noteq> [] \<longrightarrow>
                (\<forall>r \<in> set rs. sr_documentId r \<in> set ids)"
    using flt by (auto simp: rs)
  from a b c q rs sub srt show ?thesis by blast
qed

text \<open>
  The same store, searched with \<open>topK = 2\<close> and the documents restricted to \<open>d1\<close>: the
  nearest chunk belongs to \<open>d2\<close> and is not returned.
\<close>

theorem search_limit_order_filter_witness:
  "search (\<lambda>q. Inr [0]) (\<lambda>a b. \<bar>hd a - hd b\<bar>)
     \<lparr>documents = [], document_chunks =
        [\<lparr>chunk_id = ''k1'', chunk_documentId = ''d1'', chunk_content = ''alpha'',
          chunk_tokenCount = Some 2, chunk_embedding = Some [3 / 10], chunk_metadata = None\<rparr>,
         \<lparr>chunk_id = ''k2'', chunk_documentId = ''d2'', chunk_content = ''beta'',
          chunk_tokenCount = Some 1, chunk_embedding = Some [1 / 10], chunk_metadata = None\<rparr>,
         \<lparr>chunk_id = ''k3'', chunk_documentId = ''d1'', chunk_content = ''gamma'',
          chunk_tokenCount = Some 2, chunk_embedding = None, chunk_metadata = None\<rparr>,
         \<lparr>chunk_id = ''k4'', chunk_documentId = ''d1'', chunk_content = ''delta'',
          chunk_tokenCount = Some 2, chunk_embedding = Some [2 / 10], chunk_metadata = None\<rparr>]\<rparr>
     ''what''
     \<lparr>opt_topK = Some 2, opt_threshold = None, opt_documentIds = Some [''d1'']\<rparr>
   = Inr [\<lparr>sr_id = ''k4'', sr_content = ''delta'', sr_score = 8 / 10, sr_documentId = ''d1'',
           sr_metadata = None\<rparr>,
          \<lparr>sr_id = ''k1'', sr_content = ''alpha'', sr_score = 7 / 10, sr_documentId = ''d1'',
           sr_metadata = None\<rparr>] \<and>
   int (length [\<lparr>sr_id = ''k4'', sr_content = ''delta'', sr_score = 8 / 10,
                 sr_documentId = ''d1'', sr_metadata = None\<rparr>,
                \<lparr>sr_id = ''k1'', sr_content = ''alpha'', sr_score = 7 / 10,
                 sr_documentId = ''d1'', sr_metadata = None\<rparr>]) \<le> 2 \<and>
   sorted_wrt (\<lambda>a b. sr_score a \<ge> sr_score b)
     [\<lparr>sr_id = ''k4'', sr_content = ''delta'', sr_score = 8 / 10, sr_documentId = ''d1'',
       sr_metadata = None\<rparr>,
      \<lparr>sr_id = ''k1'', sr_content = ''alpha'', sr_score = 7 / 10, sr_documentId = ''d1'',
       sr_metadata = None\<rparr>]"
proof -
  have h: "search (\<lambda>q. Inr [0]) (\<lambda>a b. \<bar>hd a - hd b\<bar>)
     \<lparr>documents = [], document_chunks =
        [\<lparr>chunk_id = ''k1'', chunk_documentId = ''d1'', chunk_content = ''alpha'',
          chunk_tokenCount = Some 2, chunk_embedding = Some [3 / 10], chunk_metadata = None\<rparr>,
         \<lparr>chunk_id = ''k2'', chunk_documentId = ''d2'', chunk_content = ''beta'',
          chunk_tokenCount = Some 1, chunk_embedding = Some [1 / 10], chunk_metadata = None\<rparr>,
         \<lparr>chunk_id = ''k3'', chunk_documentId = ''d1'', chunk_content = ''gamma'',
          chunk_tokenCount = Some 2, chunk_embedding = None, chunk_metadata = None\<rparr>,
         \<lparr>chunk_id = ''k4'', chunk_documentId = ''d1'', chunk_content = ''delta'',
          chunk_tokenCount = Some 2, chunk_embedding = Some [2 / 10], chunk_metadata = None\<rparr>]\<rparr>
     ''what''
     \<lparr>opt_topK = Some 2, opt_threshold = None, opt_documentIds = Some [''d1'']\<rparr>
   = Inr [\<lparr>sr_id = ''k4'', sr_content = ''delta'', sr_score = 8 / 10, sr_documentId = ''d1'',
           sr_metadata = None\<rparr>,
          \<lparr>sr_id = ''k1'', sr_content = ''alpha'', sr_score = 7 / 10, sr_documentId = ''d1'',
           sr_metadata = None\<rparr>]"
    by (simp add: search_def select_chunks_def)
  show ?thesis using h search_limit_order_filter [OF h] by simp
qed

subsection \<open>Chunking\<close>

lemma trim_empty_iff: "trim s = [] \<longleftrightarrow> (\<forall>c \<in> set s. is_ws c)"
proof
  assume "trim s = []"
  then have "dropWhile is_ws (rev (dropWhile is_ws s)) = []" by (simp add: trim_def)
  then have "\<forall>c \<in> set (dropWhile is_ws s). is_ws c" by (simp add: dropWhile_eq_Nil_conv)
  then have "dropWhile is_ws s = []"
    by (metis dropWhile_eq_Nil_conv dropWhile_idem)
  then show "\<forall>c \<in> set s. is_ws c" by (simp add: dropWhile_eq_Nil_conv)
next
  assume "\<forall>c \<in> set s. is_ws c"
  then show "trim s = []" by (auto simp: trim_def dest: set_dropWhileD)
qed

lemma trim_ends:
  assumes "trim s \<noteq> []"
  shows "\<not> is_ws (hd (trim s)) \<and> \<not> is_ws (last (trim s))"
proof -
  let ?ys = "dropWhile is_ws s"
  let ?zs = "dropWhile is_ws (rev ?ys)"
  from assms have zs: "?zs \<noteq> []" by (simp add: trim_def)
  have l: "last (trim s) = hd ?zs" using zs by (simp add: trim_def last_rev)
  have nl: "\<not> is_ws (hd ?zs)" using zs by (rule hd_dropWhile)
  have "rev ?ys = takeWhile is_ws (rev ?ys) @ ?zs" by simp
  then have "?ys = rev ?zs @ rev (takeWhile is_ws (rev ?ys))"
    by (metis rev_append rev_rev_ident)
  then have ys: "?ys = trim s @ rev (takeWhile is_ws (rev ?ys))" by (simp add: trim_def)
  with assms have "?ys \<noteq> []" by (metis Nil_is_append_conv)
  then have nh: "\<not> is_ws (hd ?ys)" by (rule hd_dropWhile)
  from ys assms have "hd ?ys = hd (trim s)" by (metis hd_append2)
  with nh l nl show ?thesis by simp
qed

lemma trim_id:
  assumes "s \<noteq> []" "\<not> is_ws (hd s)" "\<not> is_ws (last s)"
  shows "trim s = s"
proof -
  from assms have a: "dropWhile is_ws s = s" by (cases s) auto
  from assms have "rev s \<noteq> []" "\<not> is_ws (hd (rev s))" by (simp_all add: hd_rev)
  then have "dropWhile is_ws (rev s) = rev s" by (cases "rev s") auto
  with a show ?thesis by (simp add: trim_def)
qed

lemma is_ws_NL: "is_ws NL" by (simp add: is_ws_def)

lemma chunk_step_inv:
  assumes "\<forall>ch \<in> set (fst st). outer_trimmed ch" "snd st = [] \<or> outer_trimmed (snd st)"
  shows "(\<forall>ch \<in> set (fst (chunk_step m p st)). outer_trimmed ch) \<and>
         (snd (chunk_step m p st) = [] \<or> outer_trimmed (snd (chunk_step m p st))) \<and>
         (snd st \<noteq> [] \<or> trim p \<noteq> [] \<longrightarrow> snd (chunk_step m p st) \<noteq> [])"
proof (cases "trim p = []")
  case True
  with assms show ?thesis by (cases st) (simp add: chunk_step_def)
next
  case False
  then have tp: "outer_trimmed (trim p)" using trim_ends [of p] by (simp add: outer_trimmed_def)
  obtain chunks cur where st: "st = (chunks, cur)" by (cases st)
  show ?thesis
  proof (cases "length cur + length (trim p) > m \<and> cur \<noteq> []")
    case True
    with assms st have "outer_trimmed cur" by simp
    then have "trim cur = cur" by (simp add: outer_trimmed_def trim_id)
    with True False tp assms st \<open>outer_trimmed cur\<close> show ?thesis
      by (simp add: chunk_step_def Let_def)
  next
    case F2: False
    show ?thesis
    proof (cases "cur = []")
      case True
      with F2 False tp assms st show ?thesis by (simp add: chunk_step_def Let_def)
    next
      case F3: False
      with assms st have "outer_trimmed cur" by simp
      with tp have "outer_trimmed (cur @ [NL, NL] @ trim p)"
        by (simp add: outer_trimmed_def)
      with F2 F3 False assms st show ?thesis by (auto simp add: chunk_step_def Let_def)
    qed
  qed
qed

lemma fold_chunk_step_inv:
  assumes "\<forall>ch \<in> set (fst st). outer_trimmed ch" "snd st = [] \<or> outer_trimmed (snd st)"
  shows "(\<forall>ch \<in> set (fst (fold (chunk_step m) ps st)). outer_trimmed ch) \<and>
         (snd (fold (chunk_step m) ps st) = [] \<or> outer_trimmed (snd (fold (chunk_step m) ps st))) \<and>
         (snd st \<noteq> [] \<or> (\<exists>p \<in> set ps. trim p \<noteq> []) \<longrightarrow> snd (fold (chunk_step m) ps st) \<noteq> [])"
  using assms
proof (induction ps arbitrary: st)
  case Nil
  then show ?case by simp
next
  case (Cons p ps)
  from chunk_step_inv [OF Cons.prems, of m p]
  have a: "\<forall>ch \<in> set (fst (chunk_step m p st)). outer_trimmed ch"
    and b: "snd (chunk_step m p st) = [] \<or> outer_trimmed (snd (chunk_step m p st))"
    and c: "snd st \<noteq> [] \<or> trim p \<noteq> [] \<longrightarrow> snd (chunk_step m p st) \<noteq> []"
    by blast+
  from Cons.IH [OF a b] c show ?case by auto
qed

lemma chunk_loop_clean:
  "(\<forall>ch \<in> set (chunk_loop m text). outer_trimmed ch) \<and>
   ((\<exists>p \<in> set (split_paragraphs text). trim p \<noteq> []) \<longrightarrow> chunk_loop m text \<noteq> [])"
proof -
  let ?r = "fold (chunk_step m) (split_paragraphs text) ([], [])"
  have inv: "(\<forall>ch \<in> set (fst ?r). outer_trimmed ch) \<and> (snd ?r = [] \<or> outer_trimmed (snd ?r)) \<and>
             ((\<exists>p \<in> set (split_paragraphs text). trim p \<noteq> []) \<longrightarrow> snd ?r \<noteq> [])"
    using fold_chunk_step_inv [of "([], [])" m "split_paragraphs text"] by simp
  have t: "snd ?r \<noteq> [] \<Longrightarrow> trim (snd ?r) = snd ?r"
    using inv by (auto simp: outer_trimmed_def trim_id)
  have eq: "chunk_loop m text = (if trim (snd ?r) \<noteq> [] then fst ?r @ [trim (snd ?r)] else fst ?r)"
    by (simp add: chunk_loop_def split: prod.splits)
  show ?thesis
  proof (cases "snd ?r = []")
    case True
    with inv eq show ?thesis by (auto simp: trim_def)
  next
    case False
    with t have "trim (snd ?r) = snd ?r" by simp
    with False inv eq show ?thesis by auto
  qed
qed

lemma cons_head_sets:
  "ps \<noteq> [] \<Longrightarrow> \<Union> (set ` set (cons_head c ps)) = insert c (\<Union> (set ` set ps))"
  by (cases ps) auto

lemma split_paragraphs_nonempty: "split_paragraphs s \<noteq> []"
  by (induction s rule: split_paragraphs.induct) (auto simp: neq_Nil_conv elim: cons_head.elims)

lemma split_paragraphs_subset:
  "\<Union> (set ` set (split_paragraphs s)) \<subseteq> set s"
proof (induction s rule: split_paragraphs.induct)
  case 1
  show ?case by simp
next
  case (2 c cs)
  show ?case
  proof (cases "c = NL \<and> cs \<noteq> [] \<and> hd cs = NL")
    case True
    with 2 have "\<Union> (set ` set (split_paragraphs (dropWhile (\<lambda>x. x = NL) cs))) \<subseteq> set (dropWhile (\<lambda>x. x = NL) cs)"
      by simp
    moreover have "set (dropWhile (\<lambda>x. x = NL) cs) \<subseteq> set cs"
      by (auto dest: set_dropWhileD)
    ultimately show ?thesis using True by auto
  next
    case False
    with 2 have "\<Union> (set ` set (split_paragraphs cs)) \<subseteq> set cs" by simp
    with False show ?thesis
      by (auto simp: cons_head_sets [OF split_paragraphs_nonempty])
  qed
qed

lemma split_paragraphs_covers:
  "set s - {NL} \<subseteq> \<Union> (set ` set (split_paragraphs s))"
proof (induction s rule: split_paragraphs.induct)
  case 1
  show ?case by simp
next
  case (2 c cs)
  show ?case
  proof (cases "c = NL \<and> cs \<noteq> [] \<and> hd cs = NL")
    case True
    with 2 have ih: "set (dropWhile (\<lambda>x. x = NL) cs) - {NL} \<subseteq>
        \<Union> (set ` set (split_paragraphs (dropWhile (\<lambda>x. x = NL) cs)))"
      by simp
    have "set cs = set (takeWhile (\<lambda>x. x = NL) cs) \<union> set (dropWhile (\<lambda>x. x = NL) cs)"
      by (metis set_append takeWhile_dropWhile_id)
    moreover have "set (takeWhile (\<lambda>x. x = NL) cs) \<subseteq> {NL}"
      by (auto dest: set_takeWhileD)
    ultimately have "set cs - {NL} \<subseteq> set (dropWhile (\<lambda>x. x = NL) cs) - {NL}" by auto
    with ih True show ?thesis by auto
  next
    case False
    with 2 have "set cs - {NL} \<subseteq> \<Union> (set ` set (split_paragraphs cs))" by simp
    with False show ?thesis
      by (auto simp: cons_head_sets [OF split_paragraphs_nonempty])
  qed
qed

lemma fold_chunk_step_blank:
  "\<forall>p \<in> set ps. trim p = [] \<Longrightarrow> fold (chunk_step m) ps st = st"
  by (induction ps arbitrary: st) (auto simp: chunk_step_def Let_def split: prod.splits)

text \<open>
  Claim C10. \<open>chunkText\<close> is defined on every string and never returns the empty list.
  When the paragraph loop yields no chunk the result is the single chunk \<open>text.trim()\<close>;
  that is the case for a text of white space only (the empty text included), where the
  result is one empty chunk. No chunk begins or ends with white space. For a text with
  at least one character that is not white space the chunks are those of the loop and
  every chunk is non-empty.
\<close>

theorem chunkText_nonempty_trimmed:
  "chunkText text = chunkText_sized text 1000 \<and>
   chunkText_sized text m \<noteq> [] \<and>
   (chunk_loop m text = [] \<longrightarrow> chunkText_sized text m = [trim text]) \<and>
   (\<forall>ch \<in> set (chunkText_sized text m).
      ch \<noteq> [] \<longrightarrow> \<not> is_ws (hd ch) \<and> \<not> is_ws (last ch)) \<and>
   ((\<forall>c \<in> set text. is_ws c) \<longrightarrow> chunkText_sized text m = [[]]) \<and>
   ((\<exists>c \<in> set text. \<not> is_ws c) \<longrightarrow>
      chunkText_sized text m = chunk_loop m text \<and>
      (\<forall>ch \<in> set (chunkText_sized text m). ch \<noteq> []))"
proof -
  have a: "chunkText_sized text m \<noteq> []"
    by (simp add: chunkText_sized_def Let_def)
  have b: "chunk_loop m text = [] \<longrightarrow> chunkText_sized text m = [trim text]"
    by (simp add: chunkText_sized_def Let_def)
  have cl: "\<forall>ch \<in> set (chunk_loop m text). outer_trimmed ch"
    using chunk_loop_clean [of m "text"] by blast
  have c: "\<forall>ch \<in> set (chunkText_sized text m).
      ch \<noteq> [] \<longrightarrow> \<not> is_ws (hd ch) \<and> \<not> is_ws (last ch)"
    using cl trim_ends [of "text"] by (auto simp: chunkText_sized_def Let_def outer_trimmed_def)
  have d: "(\<forall>c \<in> set text. is_ws c) \<longrightarrow> chunkText_sized text m = [[]]"
  proof
    assume ws: "\<forall>c \<in> set text. is_ws c"
    then have tt: "trim text = []" by (simp add: trim_empty_iff)
    have "\<forall>p \<in> set (split_paragraphs text). trim p = []"
      using ws split_paragraphs_subset [of "text"] by (auto simp: trim_empty_iff)
    then have "fold (chunk_step m) (split_paragraphs text) ([], []) = ([], [])"
      by (rule fold_chunk_step_blank)
    then have "chunk_loop m text = []" by (simp add: chunk_loop_def trim_def)
    with tt show "chunkText_sized text m = [[]]" by (simp add: chunkText_sized_def)
  qed
  have e: "(\<exists>c \<in> set text. \<not> is_ws c) \<longrightarrow>
      chunkText_sized text m = chunk_loop m text \<and>
      (\<forall>ch \<in> set (chunkText_sized text m). ch \<noteq> [])"
  proof
    assume "\<exists>c \<in> set text. \<not> is_ws c"
    then obtain c where c: "c \<in> set text" "\<not> is_ws c" by blast
    then have "c \<noteq> NL" using is_ws_NL by auto
    with c split_paragraphs_covers [of "text"]
    obtain p where p: "p \<in> set (split_paragraphs text)" "c \<in> set p" by auto
    with c have "trim p \<noteq> []" by (auto simp: trim_empty_iff)
    with p chunk_loop_clean [of m "text"] have ne: "chunk_loop m text \<noteq> []" by blast
    then have eq: "chunkText_sized text m = chunk_loop m text"
      by (simp add: chunkText_sized_def Let_def)
    with cl show "chunkText_sized text m = chunk_loop m text \<and>
      (\<forall>ch \<in> set (chunkText_sized text m). ch \<noteq> [])"
      by (auto simp: outer_trimmed_def)
  qed
  have f: "chunkText text = chunkText_sized text 1000" by (simp add: chunkText_def)
  from a b c d e f show ?thesis by blast
qed


text \<open>
  A text of two paragraphs with surrounding blanks and a run of three line feeds,
  chunked with a limit of 20 characters, and a text of blanks and line feeds only.
\<close>

theorem chunkText_nonempty_trimmed_witness:
  "(\<exists>c \<in> set (''  Hello world.'' @ [NL, NL, NL] @ ''Second paragraph '' @ [NL] @
                  ''goes on.'' @ [NL, NL]). \<not> is_ws c) \<and>
   chunkText_sized (''  Hello world.'' @ [NL, NL, NL] @ ''Second paragraph '' @ [NL] @
                    ''goes on.'' @ [NL, NL]) 20 =
     [''Hello world.'', ''Second paragraph '' @ [NL] @ ''goes on.''] \<and>
   list_all (\<lambda>ch. ch \<noteq> [])
     (chunkText_sized
        (''  Hello world.'' @ [NL, NL, NL] @ ''Second paragraph '' @ [NL] @
         ''goes on.'' @ [NL, NL]) 20) \<and>
   list_all is_ws ('' '' @ [NL, NL] @ ''  '') \<and>
   chunkText_sized ('' '' @ [NL, NL] @ ''  '') 1000 = [[]]"
proof -
  have h1: "\<exists>c \<in> set (''  Hello world.'' @ [NL, NL, NL] @ ''Second paragraph '' @ [NL] @
                  ''goes on.'' @ [NL, NL]). \<not> is_ws c"
    by (simp add: is_ws_def)
  have h2: "\<forall>c \<in> set ('' '' @ [NL, NL] @ ''  ''). is_ws c"
    by (simp add: is_ws_def)
  have v: "chunkText_sized (''  Hello world.'' @ [NL, NL, NL] @ ''Second paragraph '' @ [NL] @
                    ''goes on.'' @ [NL, NL]) 20 =
     [''Hello world.'', ''Second paragraph '' @ [NL] @ ''goes on.'']"
    by (simp add: chunkText_sized_def chunk_loop_def chunk_step_def trim_def is_ws_def)
  let ?two = "''  Hello world.'' @ [NL, NL, NL] @ ''Second paragraph '' @ [NL] @
              ''goes on.'' @ [NL, NL]"
  let ?blank = "'' '' @ [NL, NL] @ ''  ''"
  from chunkText_nonempty_trimmed [of ?two 20] h1
  have r1: "\<forall>ch \<in> set (chunkText_sized ?two 20). ch \<noteq> []" by blast
  from chunkText_nonempty_trimmed [of ?blank 1000] h2
  have r2: "chunkText_sized ?blank 1000 = [[]]" by blast
  from h1 v r1 h2 r2 show ?thesis unfolding list_all_iff by blast
qed

subsection \<open>The upload endpoint\<close>

lemma enumerate_map_nth:
  "map (\<lambda>(i, x). f i x) (List.enumerate 0 xs) = map (\<lambda>i. f i (xs ! i)) [0..<length xs]"
  by (rule nth_equalityI) (simp_all add: nth_enumerate_eq)

lemma upload_response:
  "fst (upload_handler (Some file) title iso_now new_id now chunk_ids db) =
     Inr \<lparr>up_status = 201,
          up_document =
            \<lparr>doc_id = new_id,
             doc_title = (case title of
                            Some t \<Rightarrow> if t \<noteq> [] then t else strip_extension (originalname file)
                          | None \<Rightarrow> strip_extension (originalname file)),
             doc_filename = originalname file, doc_mimeType = mimetype file,
             doc_size = file_size file, doc_content = buffer file,
             doc_metadata = Some (JObj [(''uploadedAt'', JStr iso_now)]),
             doc_createdAt = now, doc_updatedAt = now\<rparr>,
          up_chunkCount = length (chunkText (buffer file)),
          up_state = ''processing''\<rparr>"
  by (simp add: upload_handler_def createDocument_def createChunks_def Let_def split: prod.splits)

lemma upload_store:
  "snd (upload_handler (Some file) title iso_now new_id now chunk_ids db) =
     \<lparr>documents = documents db @
         [\<lparr>doc_id = new_id,
           doc_title = (case title of
                          Some t \<Rightarrow> if t \<noteq> [] then t else strip_extension (originalname file)
                        | None \<Rightarrow> strip_extension (originalname file)),
           doc_filename = originalname file, doc_mimeType = mimetype file,
           doc_size = file_size file, doc_content = buffer file,
           doc_metadata = Some (JObj [(''uploadedAt'', JStr iso_now)]),
           doc_createdAt = now, doc_updatedAt = now\<rparr>],
      document_chunks = document_chunks db @
         map (\<lambda>i. \<lparr>chunk_id = chunk_ids i, chunk_documentId = new_id,
                    chunk_content = chunkText (buffer file) ! i,
                    chunk_tokenCount = Some (estimateTokens (chunkText (buffer file) ! i)),
                    chunk_embedding = None,
                    chunk_metadata = Some (JObj [(''chunkIndex'', JNum (real i))])\<rparr>)
             [0..<length (chunkText (buffer file))]\<rparr>"
  by (simp add: upload_handler_def createDocument_def createChunks_def Let_def enumerate_map_nth
        split: prod.splits)

text \<open>
  Claim C5. For an uploaded file the handler answers 201 with the created document and
  \<open>chunkCount = chunkText(content).length\<close>. The store gets exactly one new document
  (the one in the response, holding the content of the file) and exactly \<open>chunkCount\<close>
  new chunk rows; the i-th of them belongs to the new document, holds the i-th chunk,
  its token count \<open>ceil(length / 4)\<close> and its index \<open>i\<close> as \<open>chunkIndex\<close>.
\<close>

theorem upload_chunk_count:
  "\<exists>resp rows.
     fst (upload_handler (Some file) title iso_now new_id now chunk_ids db) = Inr resp \<and>
     up_status resp = 201 \<and>
     doc_content (up_document resp) = buffer file \<and>
     up_chunkCount resp = length (chunkText (buffer file)) \<and>
     documents (snd (upload_handler (Some file) title iso_now new_id now chunk_ids db)) =
       documents db @ [up_document resp] \<and>
     document_chunks (snd (upload_handler (Some file) title iso_now new_id now chunk_ids db)) =
       document_chunks db @ rows \<and>
     length rows = up_chunkCount resp \<and>
     (\<forall>i < length rows.
        chunk_documentId (rows ! i) = doc_id (up_document resp) \<and>
        chunk_content (rows ! i) = chunkText (buffer file) ! i \<and>
        chunk_tokenCount (rows ! i) =
          Some (nat \<lceil>real (length (chunkText (buffer file) ! i)) / 4\<rceil>) \<and>
        chunk_metadata (rows ! i) = Some (JObj [(''chunkIndex'', JNum (real i))]))"
proof -
  let ?resp =
    "\<lparr>up_status = 201,
      up_document =
        \<lparr>doc_id = new_id,
         doc_title = (case title of
                        Some t \<Rightarrow> if t \<noteq> [] then t else strip_extension (originalname file)
                      | None \<Rightarrow> strip_extension (originalname file)),
         doc_filename = originalname file, doc_mimeType = mimetype file,
         doc_size = file_size file, doc_content = buffer file,
         doc_metadata = Some (JObj [(''uploadedAt'', JStr iso_now)]),
         doc_createdAt = now, doc_updatedAt = now\<rparr>,
      up_chunkCount = length (chunkText (buffer file)),
      up_state = ''processing''\<rparr>"
  let ?rows =
    "map (\<lambda>i. \<lparr>chunk_id = chunk_ids i, chunk_documentId = new_id,
                chunk_content = chunkText (buffer file) ! i,
                chunk_tokenCount = Some (estimateTokens (chunkText (buffer file) ! i)),
                chunk_embedding = None,
                chunk_metadata = Some (JObj [(''chunkIndex'', JNum (real i))])\<rparr>)
         [0..<length (chunkText (buffer file))]"
  show ?thesis
    by (rule exI [of _ ?resp], rule exI [of _ ?rows])
       (simp add: upload_response upload_store estimateTokens_def)
qed

text \<open>
  A text file of two short paragraphs uploaded into an empty store: one document, one
  chunk of 17 characters with 5 tokens, and \<open>chunkCount = 1\<close>.
\<close>

theorem upload_chunk_count_witness:
  "chunkText (''Intro.'' @ [NL, NL] @ ''Body text'') = [''Intro.'' @ [NL, NL] @ ''Body text''] \<and>
   (\<exists>resp rows.
     fst (upload_handler
            (Some \<lparr>originalname = ''notes.txt'', mimetype = ''text/plain'', file_size = 17,
                   buffer = ''Intro.'' @ [NL, NL] @ ''Body text''\<rparr>)
            None ''2024-01-01T00:00:00.000Z'' ''doc1'' 7 (\<lambda>i. ''chunk'')
            \<lparr>documents = [], document_chunks = []\<rparr>) = Inr resp \<and>
     up_chunkCount resp = 1 \<and>
     document_chunks (snd (upload_handler
            (Some \<lparr>originalname = ''notes.txt'', mimetype = ''text/plain'', file_size = 17,
                   buffer = ''Intro.'' @ [NL, NL] @ ''Body text''\<rparr>)
            None ''2024-01-01T00:00:00.000Z'' ''doc1'' 7 (\<lambda>i. ''chunk'')
            \<lparr>documents = [], document_chunks = []\<rparr>)) = rows \<and>
     length rows = 1 \<and>
     (\<forall>i < length rows. chunk_tokenCount (rows ! i) = Some 5))"
proof -
  have c: "chunkText (''Intro.'' @ [NL, NL] @ ''Body text'') =
             [''Intro.'' @ [NL, NL] @ ''Body text'']"
    by (simp add: chunkText_def chunkText_sized_def chunk_loop_def chunk_step_def trim_def
          is_ws_def)
  have t: "nat \<lceil>real (length (''Intro.'' @ [NL, NL] @ ''Body text'')) / 4\<rceil> = 5"
    by simp
  from upload_chunk_count [of
      "\<lparr>originalname = ''notes.txt'', mimetype = ''text/plain'', file_size = 17,
        buffer = ''Intro.'' @ [NL, NL] @ ''Body text''\<rparr>"
      None "''2024-01-01T00:00:00.000Z''" "''doc1''" 7 "\<lambda>i. ''chunk''"
      "\<lparr>documents = [], document_chunks = []\<rparr>"]
  obtain resp rows where
    r: "fst (upload_handler
            (Some \<lparr>originalname = ''notes.txt'', mimetype = ''text/plain'', file_size = 17,
                   buffer = ''Intro.'' @ [NL, NL] @ ''Body text''\<rparr>)
            None ''2024-01-01T00:00:00.000Z'' ''doc1'' 7 (\<lambda>i. ''chunk'')
            \<lparr>documents = [], document_chunks = []\<rparr>) = Inr resp" and
    n: "up_chunkCount resp =
          length (chunkText (buffer
            \<lparr>originalname = ''notes.txt'', mimetype = ''text/plain'', file_size = 17,
              buffer = ''Intro.'' @ [NL, NL] @ ''Body text''\<rparr>))" and
    d: "document_chunks (snd (upload_handler
            (Some \<lparr>originalname = ''notes.txt'', mimetype = ''text/plain'', file_size = 17,
                   buffer = ''Intro.'' @ [NL, NL] @ ''Body text''\<rparr>)
            None ''2024-01-01T00:00:00.000Z'' ''doc1'' 7 (\<lambda>i. ''chunk'')
            \<lparr>documents = [], document_chunks = []\<rparr>)) =
          document_chunks \<lparr>documents = [], document_chunks = []\<rparr> @ rows" and
    l: "length rows = up_chunkCount resp" and
    k: "\<forall>i < length rows.
          chunk_tokenCount (rows ! i) =
            Some (nat \<lceil>real (length (chunkText (buffer
              \<lparr>originalname = ''notes.txt'', mimetype = ''text/plain'', file_size = 17,
                buffer = ''Intro.'' @ [NL, NL] @ ''Body text''\<rparr>) ! i)) / 4\<rceil>)"
    by blast
  from n c have n1: "up_chunkCount resp = 1" by simp
  from l n1 have l1: "length rows = 1" by simp
  from d have d1: "document_chunks (snd (upload_handler
            (Some \<lparr>originalname = ''notes.txt'', mimetype = ''text/plain'', file_size = 17,
                   buffer = ''Intro.'' @ [NL, NL] @ ''Body text''\<rparr>)
            None ''2024-01-01T00:00:00.000Z'' ''doc1'' 7 (\<lambda>i. ''chunk'')
            \<lparr>documents = [], document_chunks = []\<rparr>)) = rows"
    by simp
  from k l1 c t have k1: "\<forall>i < length rows. chunk_tokenCount (rows ! i) = Some 5"
    by simp
  from c r n1 d1 l1 k1 show ?thesis by blast
qed

subsection \<open>The messages sent to the completion API\<close>

lemma history_identity:
  "map (\<lambda>msg. \<lparr>lm_role = lm_role msg, lm_content = lm_content msg\<rparr>) h = h"
  by (induction h) auto

lemma contextPrompt_numbered:
  "contextPrompt_of sources =
     (if sources = [] then []
      else [NL, NL] @ ''Relevant context from company documents:'' @ [NL] @
           join [NL, NL]
             (map (\<lambda>i. ''['' @ string_of_nat (i + 1) @ ''] '' @ sr_content (sources ! i))
                  [0..<length sources]))"
  unfolding contextPrompt_of_def enumerate_map_nth by simp

lemma complete_request_value:
  "complete_request retrieve userMessage options =
     (case (if co_useRAG options = Some False then Inr []
            else retrieve userMessage
                   \<lparr>opt_topK = Some (case co_topK options of None \<Rightarrow> 5 | Some k \<Rightarrow> k),
                    opt_threshold =
                      Some (case co_threshold options of None \<Rightarrow> 7 / 10 | Some t \<Rightarrow> t),
                    opt_documentIds = co_documentIds options\<rparr>) of
        Inl e \<Rightarrow> Inl e
      | Inr sources \<Rightarrow>
          Inr (sources,
               \<lparr>lm_role = System, lm_content = SYSTEM_PROMPT @ contextPrompt_of sources\<rparr> #
               (case co_conversationHistory options of None \<Rightarrow> [] | Some h \<Rightarrow> h) @
               [\<lparr>lm_role = User, lm_content = userMessage\<rparr>]))"
  by (auto simp: complete_request_def Let_def history_identity contextPrompt_of_def
           split: option.splits sum.splits bool.splits)

lemma stream_request_value:
  "stream_request retrieve userMessage options =
     (case (if co_useRAG options = Some False then Inr []
            else retrieve userMessage
                   \<lparr>opt_topK = Some (case co_topK options of None \<Rightarrow> 5 | Some k \<Rightarrow> k),
                    opt_threshold =
                      Some (case co_threshold options of None \<Rightarrow> 7 / 10 | Some t \<Rightarrow> t),
                    opt_documentIds = co_documentIds options\<rparr>) of
        Inl e \<Rightarrow> Inl e
      | Inr sources \<Rightarrow>
          Inr (sources,
               (if co_useRAG options = Some False then [] else [SourcesChunk sources]),
               \<lparr>lm_role = System, lm_content = SYSTEM_PROMPT @ contextPrompt_of sources\<rparr> #
               (case co_conversationHistory options of None \<Rightarrow> [] | Some h \<Rightarrow> h) @
               [\<lparr>lm_role = User, lm_content = userMessage\<rparr>]))"
  by (auto simp: stream_request_def Let_def history_identity contextPrompt_of_def
           split: option.splits sum.splits bool.splits)

lemma content_chunks_text:
  "concat (map chunk_text
     (concat (map (\<lambda>d. case d of
                          None \<Rightarrow> []
                        | Some content \<Rightarrow> if content \<noteq> [] then [ContentChunk content] else [])
                  deltas))) =
   concat (map (\<lambda>d. case d of None \<Rightarrow> [] | Some t \<Rightarrow> t) deltas)"
  by (induction deltas) (auto split: option.splits)

lemma complete_sends:
  assumes "(if co_useRAG options = Some False then Inr []
            else retrieve userMessage
                   \<lparr>opt_topK = Some (case co_topK options of None \<Rightarrow> 5 | Some k \<Rightarrow> k),
                    opt_threshold =
                      Some (case co_threshold options of None \<Rightarrow> 7 / 10 | Some t \<Rightarrow> t),
                    opt_documentIds = co_documentIds options\<rparr>) = Inr sources"
      and "messages =
             \<lparr>lm_role = System, lm_content = SYSTEM_PROMPT @ contextPrompt_of sources\<rparr> #
             (case co_conversationHistory options of None \<Rightarrow> [] | Some h \<Rightarrow> h) @
             [\<lparr>lm_role = User, lm_content = userMessage\<rparr>]"
  shows "complete retrieve llm userMessage options =
           ([messages],
            (case llm messages of
               Inl e \<Rightarrow> Inl e
             | Inr c \<Rightarrow> Inr \<lparr>cr_content = (case c of None \<Rightarrow> [] | Some t \<Rightarrow> t),
                              cr_sources = sources\<rparr>))"
  unfolding complete_def complete_request_value assms(1) assms(2) by simp

lemma stream_sends:
  assumes "(if co_useRAG options = Some False then Inr []
            else retrieve userMessage
                   \<lparr>opt_topK = Some (case co_topK options of None \<Rightarrow> 5 | Some k \<Rightarrow> k),
                    opt_threshold =
                      Some (case co_threshold options of None \<Rightarrow> 7 / 10 | Some t \<Rightarrow> t),
                    opt_documentIds = co_documentIds options\<rparr>) = Inr sources"
      and "messages =
             \<lparr>lm_role = System, lm_content = SYSTEM_PROMPT @ contextPrompt_of sources\<rparr> #
             (case co_conversationHistory options of None \<Rightarrow> [] | Some h \<Rightarrow> h) @
             [\<lparr>lm_role = User, lm_content = userMessage\<rparr>]"
  shows "fst (stream retrieve llm_stream userMessage options) = [messages] \<and>
         (\<forall>deltas failure. llm_stream messages = Inr (deltas, failure) \<longrightarrow>
            concat (map chunk_text (fst (snd (stream retrieve llm_stream userMessage options)))) =
              concat (map (\<lambda>d. case d of None \<Rightarrow> [] | Some t \<Rightarrow> t) deltas) \<and>
            snd (snd (stream retrieve llm_stream userMessage options)) = failure) \<and>
         (\<forall>e. llm_stream messages = Inl e \<longrightarrow>
            snd (snd (stream retrieve llm_stream userMessage options)) = Some e)"
  unfolding stream_def stream_request_value assms(1) assms(2)
  by (auto simp: Let_def content_chunks_text split: sum.splits option.splits)

lemma retrieval_failure_sends_nothing:
  assumes "co_useRAG options \<noteq> Some False"
      and "retrieve userMessage
             \<lparr>opt_topK = Some (case co_topK options of None \<Rightarrow> 5 | Some k \<Rightarrow> k),
              opt_threshold = Some (case co_threshold options of None \<Rightarrow> 7 / 10 | Some t \<Rightarrow> t),
              opt_documentIds = co_documentIds options\<rparr> = Inl e"
  shows "complete retrieve llm userMessage options = ([], Inl e) \<and>
         stream retrieve llm_stream userMessage options = ([], [], Some e)"
  unfolding complete_def stream_def complete_request_value stream_request_value
  using assms by simp

text \<open>
  Claim C4. Let \<open>sources\<close> be what was retrieved (the result of the search when \<open>useRAG\<close>
  is on, nothing when it is off) and \<open>messages\<close> the array made of one system message,
  the conversation history in order, and the user message last, where the content of
  the system message is the system prompt followed by the context: empty when there are
  no sources, otherwise the heading followed by the sources in retrieval order, the i-th
  written as \<open>[i] content\<close> with i counting from 1, separated by blank lines. Then
  \<open>complete\<close> and \<open>stream\<close> each send the hosted API exactly one request, with that
  array; \<open>complete\<close> returns the answer of the API to it (with the sources), and \<open>stream\<close>
  yields the text of the parts the API streams for it. When the retrieval fails nothing
  is sent and the error is passed on.
\<close>

theorem completion_messages:
  assumes "messages =
        \<lparr>lm_role = System,
         lm_content = SYSTEM_PROMPT @
           (if sources = [] then []
            else [NL, NL] @ ''Relevant context from company documents:'' @ [NL] @
                 join [NL, NL]
                   (map (\<lambda>i. ''['' @ string_of_nat (i + 1) @ ''] '' @ sr_content (sources ! i))
                        [0..<length sources]))\<rparr> #
        (case co_conversationHistory options of None \<Rightarrow> [] | Some h \<Rightarrow> h) @
        [\<lparr>lm_role = User, lm_content = userMessage\<rparr>]"
  shows
   "((co_useRAG options = Some False \<and> sources = []) \<or>
     (co_useRAG options \<noteq> Some False \<and>
      retrieve userMessage
        \<lparr>opt_topK = Some (case co_topK options of None \<Rightarrow> 5 | Some k \<Rightarrow> k),
         opt_threshold = Some (case co_threshold options of None \<Rightarrow> 7 / 10 | Some t \<Rightarrow> t),
         opt_documentIds = co_documentIds options\<rparr> = Inr sources) \<longrightarrow>
       fst (complete retrieve llm userMessage options) = [messages] \<and>
       snd (complete retrieve llm userMessage options) =
         (case llm messages of
            Inl e \<Rightarrow> Inl e
          | Inr c \<Rightarrow> Inr \<lparr>cr_content = (case c of None \<Rightarrow> [] | Some t \<Rightarrow> t),
                           cr_sources = sources\<rparr>) \<and>
       fst (stream retrieve llm_stream userMessage options) = [messages] \<and>
       (\<forall>deltas failure. llm_stream messages = Inr (deltas, failure) \<longrightarrow>
          concat (map chunk_text (fst (snd (stream retrieve llm_stream userMessage options)))) =
            concat (map (\<lambda>d. case d of None \<Rightarrow> [] | Some t \<Rightarrow> t) deltas) \<and>
          snd (snd (stream retrieve llm_stream userMessage options)) = failure) \<and>
       (\<forall>e. llm_stream messages = Inl e \<longrightarrow>
          snd (snd (stream retrieve llm_stream userMessage options)) = Some e)) \<and>
    (co_useRAG options \<noteq> Some False \<and>
     retrieve userMessage
       \<lparr>opt_topK = Some (case co_topK options of None \<Rightarrow> 5 | Some k \<Rightarrow> k),
        opt_threshold = Some (case co_threshold options of None \<Rightarrow> 7 / 10 | Some t \<Rightarrow> t),
        opt_documentIds = co_documentIds options\<rparr> = Inl failed \<longrightarrow>
       complete retrieve llm userMessage options = ([], Inl failed) \<and>
       stream retrieve llm_stream userMessage options = ([], [], Some failed))"
proof (intro conjI impI)
  assume r: "(co_useRAG options = Some False \<and> sources = []) \<or>
     (co_useRAG options \<noteq> Some False \<and>
      retrieve userMessage
        \<lparr>opt_topK = Some (case co_topK options of None \<Rightarrow> 5 | Some k \<Rightarrow> k),
         opt_threshold = Some (case co_threshold options of None \<Rightarrow> 7 / 10 | Some t \<Rightarrow> t),
         opt_documentIds = co_documentIds options\<rparr> = Inr sources)"
  then have got:
    "(if co_useRAG options = Some False then Inr []
      else retrieve userMessage
             \<lparr>opt_topK = Some (case co_topK options of None \<Rightarrow> 5 | Some k \<Rightarrow> k),
              opt_threshold =
                Some (case co_threshold options of None \<Rightarrow> 7 / 10 | Some t \<Rightarrow> t),
              opt_documentIds = co_documentIds options\<rparr>) = Inr sources"
    by auto
  from assms have m: "messages =
             \<lparr>lm_role = System, lm_content = SYSTEM_PROMPT @ contextPrompt_of sources\<rparr> #
             (case co_conversationHistory options of None \<Rightarrow> [] | Some h \<Rightarrow> h) @
             [\<lparr>lm_role = User, lm_content = userMessage\<rparr>]"
    unfolding contextPrompt_numbered .
  note c = complete_sends [where options = options and retrieve = retrieve
      and userMessage = userMessage and sources = sources and messages = messages
      and llm = llm, OF got m]
  note s = stream_sends [where options = options and retrieve = retrieve
      and userMessage = userMessage and sources = sources and messages = messages
      and llm_stream = llm_stream, OF got m]
  show "fst (complete retrieve llm userMessage options) = [messages]" using c by simp
  show "snd (complete retrieve llm userMessage options) =
         (case llm messages of
            Inl e \<Rightarrow> Inl e
          | Inr c \<Rightarrow> Inr \<lparr>cr_content = (case c of None \<Rightarrow> [] | Some t \<Rightarrow> t),
                           cr_sources = sources\<rparr>)"
    using c by simp
  show "fst (stream retrieve llm_stream userMessage options) = [messages]" using s by blast
  show "\<forall>deltas failure. llm_stream messages = Inr (deltas, failure) \<longrightarrow>
          concat (map chunk_text (fst (snd (stream retrieve llm_stream userMessage options)))) =
            concat (map (\<lambda>d. case d of None \<Rightarrow> [] | Some t \<Rightarrow> t) deltas) \<and>
          snd (snd (stream retrieve llm_stream userMessage options)) = failure"
    using s by blast
  show "\<forall>e. llm_stream messages = Inl e \<longrightarrow>
          snd (snd (stream retrieve llm_stream userMessage options)) = Some e"
    using s by blast
next
  assume f: "co_useRAG options \<noteq> Some False \<and>
     retrieve userMessage
       \<lparr>opt_topK = Some (case co_topK options of None \<Rightarrow> 5 | Some k \<Rightarrow> k),
        opt_threshold = Some (case co_threshold options of None \<Rightarrow> 7 / 10 | Some t \<Rightarrow> t),
        opt_documentIds = co_documentIds options\<rparr> = Inl failed"
  then show "complete retrieve llm userMessage options = ([], Inl failed)"
    using retrieval_failure_sends_nothing [of options retrieve userMessage failed llm llm_stream]
    by blast
  from f show "stream retrieve llm_stream userMessage options = ([], [], Some failed)"
    using retrieval_failure_sends_nothing [of options retrieve userMessage failed llm llm_stream]
    by blast
qed

text \<open>
  A question with a history of two messages and a retrieval that finds two chunks; the
  hosted API answers \<open>complete\<close> at once and \<open>stream\<close> in three parts, one of them
  without content.
\<close>

theorem completion_messages_witness:
  "fst (complete
     (\<lambda>q opts. Inr [\<lparr>sr_id = ''k4'', sr_content = ''delta'', sr_score = 8 / 10,
                       sr_documentId = ''d1'', sr_metadata = None\<rparr>,
                      \<lparr>sr_id = ''k1'', sr_content = ''alpha'', sr_score = 7 / 10,
                       sr_documentId = ''d1'', sr_metadata = None\<rparr>])
     (\<lambda>messages. Inr (Some ''Then we ship.''))
     ''And then?''
     \<lparr>co_conversationHistory =
        Some [\<lparr>lm_role = User, lm_content = ''Hi''\<rparr>,
              \<lparr>lm_role = Assistant, lm_content = ''Hello''\<rparr>],
      co_useRAG = Some True, co_topK = Some 2, co_threshold = None,
      co_documentIds = None\<rparr>)
   = [[\<lparr>lm_role = System,
        lm_content = SYSTEM_PROMPT @ [NL, NL] @
          ''Relevant context from company documents:'' @ [NL] @
          ''[1] delta'' @ [NL, NL] @ ''[2] alpha''\<rparr>,
       \<lparr>lm_role = User, lm_content = ''Hi''\<rparr>,
       \<lparr>lm_role = Assistant, lm_content = ''Hello''\<rparr>,
       \<lparr>lm_role = User, lm_content = ''And then?''\<rparr>]] \<and>
   snd (complete
     (\<lambda>q opts. Inr [\<lparr>sr_id = ''k4'', sr_content = ''delta'', sr_score = 8 / 10,
                       sr_documentId = ''d1'', sr_metadata = None\<rparr>,
                      \<lparr>sr_id = ''k1'', sr_content = ''alpha'', sr_score = 7 / 10,
                       sr_documentId = ''d1'', sr_metadata = None\<rparr>])
     (\<lambda>messages. Inr (Some ''Then we ship.''))
     ''And then?''
     \<lparr>co_conversationHistory =
        Some [\<lparr>lm_role = User, lm_content = ''Hi''\<rparr>,
              \<lparr>lm_role = Assistant, lm_content = ''Hello''\<rparr>],
      co_useRAG = Some True, co_topK = Some 2, co_threshold = None,
      co_documentIds = None\<rparr>)
   = Inr \<lparr>cr_content = ''Then we ship.'',
          cr_sources =
            [\<lparr>sr_id = ''k4'', sr_content = ''delta'', sr_score = 8 / 10,
              sr_documentId = ''d1'', sr_metadata = None\<rparr>,
             \<lparr>sr_id = ''k1'', sr_content = ''alpha'', sr_score = 7 / 10,
              sr_documentId = ''d1'', sr_metadata = None\<rparr>]\<rparr> \<and>
   fst (stream
     (\<lambda>q opts. Inr [\<lparr>sr_id = ''k4'', sr_content = ''delta'', sr_score = 8 / 10,
                       sr_documentId = ''d1'', sr_metadata = None\<rparr>,
                      \<lparr>sr_id = ''k1'', sr_content = ''alpha'', sr_score = 7 / 10,
                       sr_documentId = ''d1'', sr_metadata = None\<rparr>])
     (\<lambda>messages. Inr ([Some ''Then '', None, Some ''we ship.''], None))
     ''And then?''
     \<lparr>co_conversationHistory =
        Some [\<lparr>lm_role = User, lm_content = ''Hi''\<rparr>,
              \<lparr>lm_role = Assistant, lm_content = ''Hello''\<rparr>],
      co_useRAG = Some True, co_topK = Some 2, co_threshold = None,
      co_documentIds = None\<rparr>)
   = [[\<lparr>lm_role = System,
        lm_content = SYSTEM_PROMPT @ [NL, NL] @
          ''Relevant context from company documents:'' @ [NL] @
          ''[1] delta'' @ [NL, NL] @ ''[2] alpha''\<rparr>,
       \<lparr>lm_role = User, lm_content = ''Hi''\<rparr>,
       \<lparr>lm_role = Assistant, lm_content = ''Hello''\<rparr>,
       \<lparr>lm_role = User, lm_content = ''And then?''\<rparr>]] \<and>
   concat (map chunk_text (fst (snd (stream
     (\<lambda>q opts. Inr [\<lparr>sr_id = ''k4'', sr_content = ''delta'', sr_score = 8 / 10,
                       sr_documentId = ''d1'', sr_metadata = None\<rparr>,
                      \<lparr>sr_id = ''k1'', sr_content = ''alpha'', sr_score = 7 / 10,
                       sr_documentId = ''d1'', sr_metadata = None\<rparr>])
     (\<lambda>messages. Inr ([Some ''Then '', None, Some ''we ship.''], None))
     ''And then?''
     \<lparr>co_conversationHistory =
        Some [\<lparr>lm_role = User, lm_content = ''Hi''\<rparr>,
              \<lparr>lm_role = Assistant, lm_content = ''Hello''\<rparr>],
      co_useRAG = Some True, co_topK = Some 2, co_threshold = None,
      co_documentIds = None\<rparr>))))
   = ''Then we ship.''"
proof -
  let ?sources =
    "[\<lparr>sr_id = ''k4'', sr_content = ''delta'', sr_score = 8 / 10,
       sr_documentId = ''d1'', sr_metadata = None\<rparr>,
      \<lparr>sr_id = ''k1'', sr_content = ''alpha'', sr_score = 7 / 10,
       sr_documentId = ''d1'', sr_metadata = None\<rparr>]"
  let ?retrieve =
    "\<lambda>(q::string) (opts::retrieval_options). (Inr ?sources :: thrown + search_result list)"
  let ?llm = "\<lambda>messages::llm_message list. (Inr (Some ''Then we ship.'') :: thrown + string option)"
  let ?llm_stream =
    "\<lambda>messages::llm_message list.
       (Inr ([Some ''Then '', None, Some ''we ship.''], None)
          :: thrown + (string option list \<times> thrown option))"
  let ?options =
    "\<lparr>co_conversationHistory =
        Some [\<lparr>lm_role = User, lm_content = ''Hi''\<rparr>,
              \<lparr>lm_role = Assistant, lm_content = ''Hello''\<rparr>],
      co_useRAG = Some True, co_topK = Some 2, co_threshold = None,
      co_documentIds = None\<rparr>"
  let ?messages =
    "[\<lparr>lm_role = System,
       lm_content = SYSTEM_PROMPT @ [NL, NL] @
         ''Relevant context from company documents:'' @ [NL] @
         ''[1] delta'' @ [NL, NL] @ ''[2] alpha''\<rparr>,
      \<lparr>lm_role = User, lm_content = ''Hi''\<rparr>,
      \<lparr>lm_role = Assistant, lm_content = ''Hello''\<rparr>,
      \<lparr>lm_role = User, lm_content = ''And then?''\<rparr>]"
  have u: "[0..<2] = [0, 1]" by (simp add: upt_rec)
  have d: "string_of_nat (Suc 0) = ''1''" "string_of_nat (Suc (Suc 0)) = ''2''" by code_simp+
  have m: "?messages =
        \<lparr>lm_role = System,
         lm_content = SYSTEM_PROMPT @
           (if ?sources = [] then []
            else [NL, NL] @ ''Relevant context from company documents:'' @ [NL] @
                 join [NL, NL]
                   (map (\<lambda>i. ''['' @ string_of_nat (i + 1) @ ''] '' @ sr_content (?sources ! i))
                        [0..<length ?sources]))\<rparr> #
        (case co_conversationHistory ?options of None \<Rightarrow> [] | Some h \<Rightarrow> h) @
        [\<lparr>lm_role = User, lm_content = ''And then?''\<rparr>]"
    by (simp add: u d del: string_of_nat.simps)
  have r: "(co_useRAG ?options = Some False \<and> ?sources = []) \<or>
     (co_useRAG ?options \<noteq> Some False \<and>
      ?retrieve ''And then?''
        \<lparr>opt_topK = Some (case co_topK ?options of None \<Rightarrow> 5 | Some k \<Rightarrow> k),
         opt_threshold = Some (case co_threshold ?options of None \<Rightarrow> 7 / 10 | Some t \<Rightarrow> t),
         opt_documentIds = co_documentIds ?options\<rparr> = Inr ?sources)"
    by simp
  note t = completion_messages [where messages = ?messages and sources = ?sources
      and options = ?options and userMessage = "''And then?''" and retrieve = ?retrieve
      and llm = ?llm and llm_stream = ?llm_stream, OF m]
  note t1 = t [THEN conjunct1, THEN mp, OF r]
  have a: "fst (complete ?retrieve ?llm ''And then?'' ?options) = [?messages]"
    by (rule t1 [THEN conjunct1])
  have b: "snd (complete ?retrieve ?llm ''And then?'' ?options) =
      Inr \<lparr>cr_content = ''Then we ship.'', cr_sources = ?sources\<rparr>"
    using t1 [THEN conjunct2, THEN conjunct1] by simp
  have c: "fst (stream ?retrieve ?llm_stream ''And then?'' ?options) = [?messages]"
    by (rule t1 [THEN conjunct2, THEN conjunct2, THEN conjunct1])
  have l: "?llm_stream ?messages = Inr ([Some ''Then '', None, Some ''we ship.''], None)"
    by simp
  have e:
    "concat (map chunk_text (fst (snd (stream ?retrieve ?llm_stream ''And then?'' ?options)))) =
       ''Then we ship.''"
    using t1 [THEN conjunct2, THEN conjunct2, THEN conjunct2, THEN conjunct1,
              THEN spec, THEN spec, THEN mp, OF l, THEN conjunct1]
    by simp
  show ?thesis by (intro conjI; (rule a | rule b | rule c | rule e))
qed

subsection \<open>Server-sent events: framing and reassembly\<close>


lemma cons_head_append:
  "xs \<noteq> [] \<Longrightarrow> cons_head a (xs @ ys) = cons_head a xs @ ys"
  by (cases xs) auto

















end
